theory Spec2Isabelle
  imports Complex_Main "HOL-Library.Monad_Syntax"
begin

section \<open>Data model (types.ts)\<close>

text \<open>
  JavaScript numbers are modelled as real numbers in the first part of this theory: the
  arithmetic is exact there, and what is proved is what the formulas of the program
  say. Rounding and overflow of IEEE doubles are the subject of a second embedding of
  \<open>calculatePd\<close>, further down, for the two properties that depend on them. In the
  exact model the one way the arithmetic can leave the finite numbers is a division by
  zero (which JavaScript answers with \<open>NaN\<close> or an infinity instead of raising); that
  is kept visible: a division by a computed divisor is \<open>js_div\<close>, whose result
  \<open>None\<close> stands for a non-finite value.
\<close>

datatype MarkerKey = LeftPupil | RightPupil | LeftCard | RightCard

record Point =
  x :: real
  y :: real

text \<open>
  \<open>MarkerMap = Record<MarkerKey, Point>\<close>: every key is present, so the map is a total
  function. \<open>markers.leftPupil\<close> is \<open>mks LeftPupil\<close>, and the assignment
  \<open>next[key] = p\<close> on a copy is \<open>next(key := p)\<close>. A record field name cannot
  also name a variable, so a parameter the source calls \<open>markers\<close>, \<open>width\<close> or
  \<open>height\<close> is \<open>mks\<close>, \<open>w\<close> or \<open>h\<close> here.
\<close>

type_synonym MarkerMap = "MarkerKey \<Rightarrow> Point"

text \<open>
  The three validation messages of \<open>calculatePd\<close>, in the order in which they are pushed:
  \<^item> \<open>CardTooClose\<close>: "Card markers are too close. Move card corner points to real card edges."
  \<^item> \<open>PdOutOfRange v\<close>: "Estimated PD \<open>v.toFixed(1)\<close> mm is outside expected range (45-80 mm)."
  \<^item> \<open>CardTilted\<close>: "Card line appears heavily tilted. Keep card parallel to camera for better scale."
  The second message interpolates the unrounded PD; the constructor carries that number and
  leaves its decimal rendering aside.
\<close>

datatype Issue = CardTooClose | PdOutOfRange real | CardTilted

record CapturedPhoto =
  dataUrl :: string
  width :: real
  height :: real
  capturedAt :: string

text \<open>
  \<open>SavedReading\<close> and \<open>MeasurementResult\<close> share several field names; an
  unqualified name below is the field of \<open>MeasurementResult\<close>, and the fields of a saved
  reading are written \<open>SavedReading.pdMm\<close> and so on.
\<close>

record SavedReading =
  id :: string
  savedAt :: string
  sourceCapturedAt :: string
  pdMm :: real
  confidence :: real
  qualityMessage :: string
  valid :: bool
  issues :: "Issue list"
  markers :: MarkerMap
  pupilPixelDistance :: real
  cardPixelWidth :: real
  mmPerPixel :: real

record MeasurementResult =
  pupilPixelDistance :: real
  cardPixelWidth :: real
  mmPerPixel :: real
  pdMm :: real
  pdMmRounded :: real
  confidence :: real
  qualityMessage :: string
  issues :: "Issue list"
  valid :: bool

section \<open>Constants (constants.ts)\<close>

definition CARD_WIDTH_MM :: real where
  "CARD_WIDTH_MM = 85.6"

definition MIN_CARD_PIXEL_WIDTH :: real where
  "MIN_CARD_PIXEL_WIDTH = 90"

definition MIN_PD_MM :: real where
  "MIN_PD_MM = 45"

definition MAX_PD_MM :: real where
  "MAX_PD_MM = 80"

definition createDefaultMarkers :: "real \<Rightarrow> real \<Rightarrow> MarkerMap" where
  "createDefaultMarkers w h = (\<lambda>key. case key of
       LeftPupil \<Rightarrow> \<lparr>x = w * 0.4, y = h * 0.48\<rparr>
     | RightPupil \<Rightarrow> \<lparr>x = w * 0.6, y = h * 0.48\<rparr>
     | LeftCard \<Rightarrow> \<lparr>x = w * 0.3, y = h * 0.2\<rparr>
     | RightCard \<Rightarrow> \<lparr>x = w * 0.7, y = h * 0.2\<rparr>)"

section \<open>Geometry primitives (utils/geometry.ts)\<close>

text \<open>\<open>Math.hypot(a, b)\<close> on finite arguments.\<close>

definition Math_hypot :: "real \<Rightarrow> real \<Rightarrow> real" where
  "Math_hypot a b = sqrt (a\<^sup>2 + b\<^sup>2)"

definition distance :: "Point \<Rightarrow> Point \<Rightarrow> real" where
  "distance a b = Math_hypot (x a - x b) (y a - y b)"

definition clamp :: "real \<Rightarrow> real \<Rightarrow> real \<Rightarrow> real" where
  "clamp val lo hi = min hi (max lo val)"

section \<open>Measurement engine (utils/measurement.ts)\<close>

text \<open>
  \<open>Math.round\<close> rounds to the nearest integer and resolves a tie towards positive
  infinity.
\<close>

definition Math_round :: "real \<Rightarrow> real" where
  "Math_round v = of_int \<lfloor>v + 1 / 2\<rfloor>"

text \<open>
  Division by a computed divisor. JavaScript yields \<open>NaN\<close> (for \<open>0 / 0\<close>) or an
  infinity when the divisor is zero; \<open>None\<close> stands for such a non-finite value.
\<close>

definition js_div :: "real \<Rightarrow> real \<Rightarrow> real option" where
  "js_div a b = (if b = 0 then None else Some (a / b))"

definition calculatePd :: "MarkerMap \<Rightarrow> MeasurementResult option" where
  "calculatePd mks = do {
     let pupilPixelDistance = distance (mks LeftPupil) (mks RightPupil);
     let cardPixelWidth = distance (mks LeftCard) (mks RightCard);
     mmPerPixel \<leftarrow> (if cardPixelWidth > 0 then js_div CARD_WIDTH_MM cardPixelWidth else Some 0);
     let pdMm = pupilPixelDistance * mmPerPixel;
     let pdMmRounded = Math_round (pdMm * 2) / 2;
     let issues0 = [];
     let issues1 = (if cardPixelWidth < MIN_CARD_PIXEL_WIDTH
                    then issues0 @ [CardTooClose] else issues0);
     let issues2 = (if pdMm < MIN_PD_MM \<or> pdMm > MAX_PD_MM
                    then issues1 @ [PdOutOfRange pdMm] else issues1);
     cardTiltRatio \<leftarrow>
       js_div \<bar>y (mks LeftCard) - y (mks RightCard)\<bar> (max cardPixelWidth 1);
     let issues3 = (if cardTiltRatio > 0.2 then issues2 @ [CardTilted] else issues2);
     let scaleConfidence = clamp ((cardPixelWidth - MIN_CARD_PIXEL_WIDTH) / 220) 0 1;
     let tiltConfidence = 1 - clamp (cardTiltRatio / 0.2) 0 1;
     let confidence0 = 0.35 + scaleConfidence * 0.45 + tiltConfidence * 0.2;
     let confidence1 = (if pdMm < MIN_PD_MM \<or> pdMm > MAX_PD_MM
                        then confidence0 - 0.3 else confidence0);
     let confidence2 = clamp confidence1 0 1;
     let qualityMessage =
       (if confidence2 \<ge> 0.75 \<and> length issues3 = 0
        then ''Good quality capture. Manual marker check still recommended.''
        else if confidence2 \<ge> 0.5
        then ''Moderate quality. Consider another capture to confirm.''
        else ''Low confidence - check marker placement and retake.'');
     Some \<lparr>pupilPixelDistance = pupilPixelDistance,
           cardPixelWidth = cardPixelWidth,
           mmPerPixel = mmPerPixel,
           pdMm = pdMm,
           pdMmRounded = pdMmRounded,
           confidence = confidence2,
           qualityMessage = qualityMessage,
           issues = issues3,
           valid = (length issues3 = 0)\<rparr>
   }"

section \<open>Auto-suggest reconciliation (utils/landmarks.ts, App.tsx)\<close>

datatype AutoStatus = Success | NoFace | Error

text \<open>
  \<open>Partial<MarkerMap>\<close>: the own properties of the suggestion object in insertion order.
  A property may be present and hold \<open>undefined\<close> (\<open>None\<close>).
\<close>

type_synonym Suggestions = "(MarkerKey \<times> Point option) list"

record AutoSuggestResult =
  status :: AutoStatus
  suggestions :: Suggestions
  message :: string

text \<open>\<open>Object.keys(result.suggestions)\<close>.\<close>

definition suggestion_keys :: "Suggestions \<Rightarrow> MarkerKey list" where
  "suggestion_keys s = map fst s"

text \<open>\<open>result.suggestions[key]\<close>: \<open>undefined\<close> for a missing property.\<close>

definition suggestion_at :: "Suggestions \<Rightarrow> MarkerKey \<Rightarrow> Point option" where
  "suggestion_at s key = (case map_of s key of None \<Rightarrow> None | Some v \<Rightarrow> v)"

text \<open>
  The body of the \<open>setMarkers\<close> updater of \<open>runAutoDetect\<close> for a non-null
  \<open>current\<close>: copy, then overwrite key by key.
\<close>

definition merge_step :: "Suggestions \<Rightarrow> MarkerKey \<Rightarrow> MarkerMap \<Rightarrow> MarkerMap" where
  "merge_step s key next =
     (case suggestion_at s key of
        Some suggestion \<Rightarrow> next(key := suggestion)
      | None \<Rightarrow> next)"

definition merge_suggestions :: "MarkerMap \<Rightarrow> Suggestions \<Rightarrow> MarkerMap" where
  "merge_suggestions current s = fold (merge_step s) (suggestion_keys s) current"

text \<open>
  What \<open>runAutoDetect\<close> does to the \<open>markers\<close> state (\<open>MarkerMap | null\<close>) once the
  detector has answered with \<open>result\<close>.
\<close>

definition runAutoDetect_setMarkers ::
    "AutoSuggestResult \<Rightarrow> MarkerMap option \<Rightarrow> MarkerMap option" where
  "runAutoDetect_setMarkers result current =
     (if status result = Success
      then (case current of
              None \<Rightarrow> None
            | Some cur \<Rightarrow> Some (merge_suggestions cur (suggestions result)))
      else current)"

section \<open>Annotation surface (components/AnnotationCanvas.tsx)\<close>

text \<open>
  \<open>Object.keys(candidates)\<close> for a \<open>MarkerMap\<close>. Every marker map of the program is
  the object literal of \<open>createDefaultMarkers\<close> or a spread copy of one with existing
  keys overwritten, so its keys are always enumerated in the literal's order.
\<close>

definition marker_keys :: "MarkerKey list" where
  "marker_keys = [LeftPupil, RightPupil, LeftCard, RightCard]"

text \<open>
  One iteration of the \<open>forEach\<close> of \<open>nearestMarker\<close> on its two local variables.
  \<open>nearestDistance\<close> starts as \<open>Number.POSITIVE_INFINITY\<close>, which is \<open>None\<close> here:
  every distance is below it, and it is not below 26.
\<close>

definition nearest_step ::
    "Point \<Rightarrow> MarkerMap \<Rightarrow> MarkerKey \<Rightarrow> MarkerKey option \<times> real option
       \<Rightarrow> MarkerKey option \<times> real option" where
  "nearest_step point candidates key st =
     (case st of (nearest, nearestDistance) \<Rightarrow>
        let currentDistance = distance point (candidates key) in
        if (case nearestDistance of None \<Rightarrow> True | Some d \<Rightarrow> currentDistance < d)
        then (Some key, Some currentDistance)
        else (nearest, nearestDistance))"

definition nearestMarker :: "Point \<Rightarrow> MarkerMap \<Rightarrow> MarkerKey option" where
  "nearestMarker point candidates =
     (case fold (nearest_step point candidates) marker_keys (None, None) of
        (nearest, nearestDistance) \<Rightarrow>
          if (case nearestDistance of None \<Rightarrow> False | Some d \<Rightarrow> d < 26)
          then nearest else None)"

text \<open>The position of a key in the enumeration order.\<close>

fun key_index :: "MarkerKey \<Rightarrow> nat" where
  "key_index LeftPupil = 0"
| "key_index RightPupil = 1"
| "key_index LeftCard = 2"
| "key_index RightCard = 3"

text \<open>
  The \<open>scale\<close> object \<open>{x, y}\<close> of the component is a \<open>Point\<close>. A pointer event is
  read through \<open>clientX\<close>, \<open>clientY\<close> and the bounding rectangle of the canvas.
\<close>

record PointerEvent =
  clientX :: real
  clientY :: real
  rectLeft :: real
  rectTop :: real

definition toCanvas :: "Point \<Rightarrow> Point \<Rightarrow> Point" where
  "toCanvas scale point = \<lparr>x = x point * x scale, y = y point * y scale\<rparr>"

definition getImagePointFromEvent ::
    "Point \<Rightarrow> CapturedPhoto \<Rightarrow> PointerEvent \<Rightarrow> Point option" where
  "getImagePointFromEvent scale photo event = do {
     let pointerX = clientX event - rectLeft event;
     let pointerY = clientY event - rectTop event;
     qx \<leftarrow> js_div pointerX (max (x scale) 0.0001);
     qy \<leftarrow> js_div pointerY (max (y scale) 0.0001);
     Some \<lparr>x = clamp qx 0 (width photo), y = clamp qy 0 (height photo)\<rparr>
   }"

text \<open>
  \<open>handlePointerDown\<close> on the \<open>activeMarker\<close> state: a miss returns before
  \<open>setActiveMarker\<close>.
\<close>

definition handlePointerDown ::
    "Point \<Rightarrow> CapturedPhoto \<Rightarrow> MarkerMap \<Rightarrow> PointerEvent
       \<Rightarrow> MarkerKey option \<Rightarrow> MarkerKey option option" where
  "handlePointerDown scale photo mks event activeMarker = do {
     hitPoint \<leftarrow> getImagePointFromEvent scale photo event;
     Some (case nearestMarker hitPoint mks of
             None \<Rightarrow> activeMarker
           | Some key \<Rightarrow> Some key)
   }"

section \<open>Saving a reading (utils/storage.ts, App.tsx)\<close>

datatype AppStep = Instructions | Camera | Annotate | Result

text \<open>
  The stored item under \<open>STORAGE_KEY\<close>, already parsed: \<open>None\<close> when the item is
  missing, empty, not JSON or not an array.
\<close>

definition loadReadings :: "SavedReading list option \<Rightarrow> SavedReading list" where
  "loadReadings stored = (case stored of None \<Rightarrow> [] | Some parsed \<Rightarrow> parsed)"

text \<open>
  \<open>saveReading\<close> returns the new history and the new stored item; \<open>writeFails\<close>
  says that \<open>localStorage.setItem\<close> throws.
\<close>

definition saveReading ::
    "bool \<Rightarrow> SavedReading list option \<Rightarrow> SavedReading
       \<Rightarrow> SavedReading list \<times> SavedReading list option" where
  "saveReading writeFails stored reading =
     (let current = loadReadings stored;
          next = take 25 (reading # current)
      in if writeFails then (current, stored) else (next, Some next))"

record AppState =
  step :: AppStep
  savingError :: "string option"
  history :: "SavedReading list"
  latestReading :: "SavedReading option"
  localStorage :: "SavedReading list option"

text \<open>
  \<open>saveCurrentReading\<close>. \<open>newId\<close> is what \<open>createReadingId()\<close> returns and \<open>now\<close>
  what \<open>new Date().toISOString()\<close> returns; \<open>photo\<close>, \<open>mks\<close> (the \<open>markers\<close>
  state) and the memoised \<open>measurement\<close> are the values in scope, each possibly
  \<open>null\<close>.
\<close>

definition saveCurrentReading ::
    "string \<Rightarrow> string \<Rightarrow> bool \<Rightarrow> CapturedPhoto option \<Rightarrow> MarkerMap option
       \<Rightarrow> MeasurementResult option \<Rightarrow> AppState \<Rightarrow> AppState" where
  "saveCurrentReading newId now writeFails photo mks measurement st =
     (case (photo, mks, measurement) of
        (Some ph, Some mk, Some ms) \<Rightarrow>
          if \<not> valid ms
          then st\<lparr>savingError :=
                    Some ''Fix highlighted issues before saving this measurement.''\<rparr>
          else
            let reading = \<lparr>id = newId,
                           savedAt = now,
                           sourceCapturedAt = capturedAt ph,
                           pdMm = pdMmRounded ms,
                           confidence = confidence ms,
                           qualityMessage = qualityMessage ms,
                           valid = valid ms,
                           issues = issues ms,
                           markers = mk,
                           pupilPixelDistance = pupilPixelDistance ms,
                           cardPixelWidth = cardPixelWidth ms,
                           mmPerPixel = mmPerPixel ms\<rparr>;
                saved = saveReading writeFails (localStorage st) reading
            in st\<lparr>savingError := None,
                   history := fst saved,
                   latestReading := Some reading,
                   step := Result,
                   localStorage := snd saved\<rparr>
      | _ \<Rightarrow> st)"

section \<open>The confidence score, from the code and from the specification\<close>

text \<open>
  The value of the local \<open>confidence\<close> of \<open>calculatePd\<close> before the range
  penalty and the final clamp, as a function of the markers.
\<close>

definition confidence0 :: "MarkerMap \<Rightarrow> real" where
  "confidence0 mks =
     (let cardPixelWidth = distance (mks LeftCard) (mks RightCard);
          cardTiltRatio = \<bar>y (mks LeftCard) - y (mks RightCard)\<bar> / max cardPixelWidth 1;
          scaleConfidence = clamp ((cardPixelWidth - MIN_CARD_PIXEL_WIDTH) / 220) 0 1;
          tiltConfidence = 1 - clamp (cardTiltRatio / 0.2) 0 1
      in 0.35 + scaleConfidence * 0.45 + tiltConfidence * 0.2)"

text \<open>
  The formula of the specification: the scale term, the tilt term, the base score clamped
  to \<open>[0,1]\<close>, then the penalty of 0.3 when the PD is outside \<open>[45,80]\<close>, then a
  second clamp.
\<close>

definition spec_scaleConfidence :: "real \<Rightarrow> real" where
  "spec_scaleConfidence cardWidth = clamp ((cardWidth - 90) / 220) 0 1"

definition spec_tiltRatio :: "MarkerMap \<Rightarrow> real \<Rightarrow> real" where
  "spec_tiltRatio mks cardWidth = \<bar>y (mks LeftCard) - y (mks RightCard)\<bar> / max cardWidth 1"

definition spec_tiltConfidence :: "real \<Rightarrow> real" where
  "spec_tiltConfidence tiltRatio = 1 - clamp (tiltRatio / 0.2) 0 1"

definition spec_confidence :: "real \<Rightarrow> real \<Rightarrow> real \<Rightarrow> real" where
  "spec_confidence cardWidth tiltRatio pd =
     (let c = clamp (0.35 + 0.45 * spec_scaleConfidence cardWidth
                       + 0.20 * spec_tiltConfidence tiltRatio) 0 1
      in clamp (if pd < 45 \<or> pd > 80 then c - 0.3 else c) 0 1)"

section \<open>Rounding to half a millimetre\<close>


section \<open>The measurement engine over IEEE doubles\<close>

text \<open>
  Two properties of \<open>calculatePd\<close> depend on the arithmetic of JavaScript numbers
  themselves: whether a value can become \<open>NaN\<close> or infinite, and the last digit of the
  confidence. For these the function is embedded a second time, over IEEE 754 binary64
  with round-to-nearest, ties-to-even. The names of this layer carry the suffix
  \<open>_f64\<close>.

  \<^item> A \<open>number\<close> is a finite value, an infinity or \<open>NaN\<close>. Zero has no sign here; the
    sign of a zero shows only in a division by zero, and \<open>calculatePd\<close> never divides by
    zero.
  \<^item> \<open>f64_round\<close> rounds a real to the nearest double: the spacing \<open>f64_ulp\<close> of the
    doubles around \<open>v\<close> is \<open>2\<close> to the power of the exponent of \<open>v\<close> less 52 (the
    exponent is not below -1022, which gives the subnormal numbers), and the multiple of
    that spacing nearest to \<open>v\<close> is taken, the even one on a tie. \<open>fl\<close> adds overflow.
  \<^item> A literal such as \<open>0.35\<close> denotes \<open>fl 0.35\<close>; literals that are doubles already
    (integers, \<open>0.5\<close>, \<open>0.75\<close>) are written \<open>Fin\<close>.
  \<^item> \<open>Math.hypot\<close> is specified only up to the implementation's approximation; it is
    taken as correctly rounded. The results below use it only where every
    implementation agrees: an infinite argument gives \<open>Infinity\<close>, \<open>hypot(0,0)\<close> is 0,
    \<open>hypot(a,0)\<close> is the magnitude of \<open>a\<close>, and a finite result has finite arguments.
  \<^item> Marker coordinates are finite numbers, as the data model of the specification has
    them, so a marker map is the \<open>MarkerMap\<close> of above.
\<close>

datatype number = Fin real | PInf | NInf | NaN

text \<open>The integer nearest to \<open>t\<close>, the even one of two equally near.\<close>

definition round_half_even :: "real \<Rightarrow> int" where
  "round_half_even t =
     (let n = \<lfloor>t\<rfloor>; f = t - of_int n
      in if f < 1 / 2 then n else if 1 / 2 < f then n + 1 else if even n then n else n + 1)"

definition f64_exponent :: "real \<Rightarrow> int" where
  "f64_exponent v = max \<lfloor>log 2 \<bar>v\<bar>\<rfloor> (- 1022)"

definition f64_ulp :: "real \<Rightarrow> real" where
  "f64_ulp v = 2 powi (f64_exponent v - 52)"

definition f64_round :: "real \<Rightarrow> real" where
  "f64_round v =
     (if v = 0 then 0
      else sgn v * (of_int (round_half_even (\<bar>v\<bar> / f64_ulp v)) * f64_ulp v))"

text \<open>\<open>Number.MAX_VALUE\<close>; a rounded value beyond it is an infinity.\<close>

definition f64_MAX :: real where
  "f64_MAX = (2 ^ 53 - 1) * 2 ^ 971"

definition fl :: "real \<Rightarrow> number" where
  "fl v =
     (let r = f64_round v
      in if f64_MAX < r then PInf else if r < - f64_MAX then NInf else Fin r)"

text \<open>
  The values a real is exactly representable as: an integer below \<open>2\<close> to the 53 in
  magnitude times a power of two that is not below the smallest spacing. (No upper limit
  on the exponent: overflow is the business of \<open>fl\<close>.)
\<close>

definition is_f64 :: "real \<Rightarrow> bool" where
  "is_f64 r \<longleftrightarrow> (\<exists>m k. r = of_int m * 2 powi k \<and> \<bar>m\<bar> < 2 ^ 53 \<and> - 1074 \<le> k)"

text \<open>
  The operators \<open>+ - * / < > >=\<close> and the \<open>Math\<close> functions that \<open>calculatePd\<close> uses,
  with the special cases of the language: \<open>NaN\<close> is absorbing and compares false,
  \<open>Infinity - Infinity\<close>, \<open>Infinity * 0\<close>, \<open>0 / 0\<close> and \<open>Infinity / Infinity\<close> are
  \<open>NaN\<close>.
\<close>

fun num_add :: "number \<Rightarrow> number \<Rightarrow> number" where
  "num_add (Fin a) (Fin b) = fl (a + b)"
| "num_add NaN _ = NaN"
| "num_add _ NaN = NaN"
| "num_add PInf NInf = NaN"
| "num_add NInf PInf = NaN"
| "num_add PInf _ = PInf"
| "num_add _ PInf = PInf"
| "num_add NInf _ = NInf"
| "num_add _ NInf = NInf"

fun num_sub :: "number \<Rightarrow> number \<Rightarrow> number" where
  "num_sub (Fin a) (Fin b) = fl (a - b)"
| "num_sub NaN _ = NaN"
| "num_sub _ NaN = NaN"
| "num_sub PInf PInf = NaN"
| "num_sub NInf NInf = NaN"
| "num_sub PInf _ = PInf"
| "num_sub _ PInf = NInf"
| "num_sub NInf _ = NInf"
| "num_sub _ NInf = PInf"

fun num_mul :: "number \<Rightarrow> number \<Rightarrow> number" where
  "num_mul (Fin a) (Fin b) = fl (a * b)"
| "num_mul NaN _ = NaN"
| "num_mul _ NaN = NaN"
| "num_mul (Fin a) PInf = (if a = 0 then NaN else if 0 < a then PInf else NInf)"
| "num_mul (Fin a) NInf = (if a = 0 then NaN else if 0 < a then NInf else PInf)"
| "num_mul PInf (Fin b) = (if b = 0 then NaN else if 0 < b then PInf else NInf)"
| "num_mul NInf (Fin b) = (if b = 0 then NaN else if 0 < b then NInf else PInf)"
| "num_mul PInf PInf = PInf"
| "num_mul PInf NInf = NInf"
| "num_mul NInf PInf = NInf"
| "num_mul NInf NInf = PInf"

fun num_div :: "number \<Rightarrow> number \<Rightarrow> number" where
  "num_div (Fin a) (Fin b) =
     (if b = 0 then (if a = 0 then NaN else if 0 < a then PInf else NInf) else fl (a / b))"
| "num_div NaN _ = NaN"
| "num_div _ NaN = NaN"
| "num_div (Fin a) PInf = Fin 0"
| "num_div (Fin a) NInf = Fin 0"
| "num_div PInf (Fin b) = (if 0 \<le> b then PInf else NInf)"
| "num_div NInf (Fin b) = (if 0 \<le> b then NInf else PInf)"
| "num_div _ _ = NaN"

fun num_lt :: "number \<Rightarrow> number \<Rightarrow> bool" where
  "num_lt (Fin a) (Fin b) \<longleftrightarrow> a < b"
| "num_lt NaN _ \<longleftrightarrow> False"
| "num_lt _ NaN \<longleftrightarrow> False"
| "num_lt PInf _ \<longleftrightarrow> False"
| "num_lt _ NInf \<longleftrightarrow> False"
| "num_lt _ _ \<longleftrightarrow> True"

definition num_gt :: "number \<Rightarrow> number \<Rightarrow> bool" where
  "num_gt a b \<longleftrightarrow> num_lt b a"

fun num_ge :: "number \<Rightarrow> number \<Rightarrow> bool" where
  "num_ge (Fin a) (Fin b) \<longleftrightarrow> b \<le> a"
| "num_ge NaN _ \<longleftrightarrow> False"
| "num_ge _ NaN \<longleftrightarrow> False"
| "num_ge PInf _ \<longleftrightarrow> True"
| "num_ge _ NInf \<longleftrightarrow> True"
| "num_ge _ _ \<longleftrightarrow> False"

fun Math_max_f64 :: "number \<Rightarrow> number \<Rightarrow> number" where
  "Math_max_f64 NaN _ = NaN"
| "Math_max_f64 _ NaN = NaN"
| "Math_max_f64 a b = (if num_lt a b then b else a)"

fun Math_min_f64 :: "number \<Rightarrow> number \<Rightarrow> number" where
  "Math_min_f64 NaN _ = NaN"
| "Math_min_f64 _ NaN = NaN"
| "Math_min_f64 a b = (if num_lt b a then b else a)"

fun Math_abs_f64 :: "number \<Rightarrow> number" where
  "Math_abs_f64 (Fin a) = Fin \<bar>a\<bar>"
| "Math_abs_f64 PInf = PInf"
| "Math_abs_f64 NInf = PInf"
| "Math_abs_f64 NaN = NaN"

fun Math_round_f64 :: "number \<Rightarrow> number" where
  "Math_round_f64 (Fin a) = Fin (of_int \<lfloor>a + 1 / 2\<rfloor>)"
| "Math_round_f64 a = a"

fun Math_hypot_f64 :: "number \<Rightarrow> number \<Rightarrow> number" where
  "Math_hypot_f64 (Fin a) (Fin b) = fl (sqrt (a\<^sup>2 + b\<^sup>2))"
| "Math_hypot_f64 PInf _ = PInf"
| "Math_hypot_f64 NInf _ = PInf"
| "Math_hypot_f64 _ PInf = PInf"
| "Math_hypot_f64 _ NInf = PInf"
| "Math_hypot_f64 _ _ = NaN"

definition distance_f64 :: "Point \<Rightarrow> Point \<Rightarrow> number" where
  "distance_f64 a b =
     Math_hypot_f64 (num_sub (Fin (x a)) (Fin (x b))) (num_sub (Fin (y a)) (Fin (y b)))"

definition clamp_f64 :: "number \<Rightarrow> number \<Rightarrow> number \<Rightarrow> number" where
  "clamp_f64 val lo hi = Math_min_f64 hi (Math_max_f64 lo val)"

datatype Issue_f64 = CardTooClose_f64 | PdOutOfRange_f64 number | CardTilted_f64

record MeasurementResult_f64 =
  pupilPixelDistance_f64 :: number
  cardPixelWidth_f64 :: number
  mmPerPixel_f64 :: number
  pdMm_f64 :: number
  pdMmRounded_f64 :: number
  confidence_f64 :: number
  qualityMessage_f64 :: string
  issues_f64 :: "Issue_f64 list"
  valid_f64 :: bool

definition CARD_WIDTH_MM_f64 :: number where
  "CARD_WIDTH_MM_f64 = fl 85.6"

definition MIN_CARD_PIXEL_WIDTH_f64 :: number where
  "MIN_CARD_PIXEL_WIDTH_f64 = Fin 90"

definition MIN_PD_MM_f64 :: number where
  "MIN_PD_MM_f64 = Fin 45"

definition MAX_PD_MM_f64 :: number where
  "MAX_PD_MM_f64 = Fin 80"

definition calculatePd_f64 :: "MarkerMap \<Rightarrow> MeasurementResult_f64" where
  "calculatePd_f64 mks =
     (let pupilPixelDistance = distance_f64 (mks LeftPupil) (mks RightPupil);
          cardPixelWidth = distance_f64 (mks LeftCard) (mks RightCard);
          mmPerPixel = (if num_gt cardPixelWidth (Fin 0)
                        then num_div CARD_WIDTH_MM_f64 cardPixelWidth else Fin 0);
          pdMm = num_mul pupilPixelDistance mmPerPixel;
          pdMmRounded = num_div (Math_round_f64 (num_mul pdMm (Fin 2))) (Fin 2);
          issues0 = [];
          issues1 = (if num_lt cardPixelWidth MIN_CARD_PIXEL_WIDTH_f64
                     then issues0 @ [CardTooClose_f64] else issues0);
          issues2 = (if num_lt pdMm MIN_PD_MM_f64 \<or> num_gt pdMm MAX_PD_MM_f64
                     then issues1 @ [PdOutOfRange_f64 pdMm] else issues1);
          cardTiltRatio =
            num_div (Math_abs_f64 (num_sub (Fin (y (mks LeftCard))) (Fin (y (mks RightCard)))))
                    (Math_max_f64 cardPixelWidth (Fin 1));
          issues3 = (if num_gt cardTiltRatio (fl 0.2)
                     then issues2 @ [CardTilted_f64] else issues2);
          scaleConfidence =
            clamp_f64 (num_div (num_sub cardPixelWidth MIN_CARD_PIXEL_WIDTH_f64) (Fin 220))
                      (Fin 0) (Fin 1);
          tiltConfidence =
            num_sub (Fin 1) (clamp_f64 (num_div cardTiltRatio (fl 0.2)) (Fin 0) (Fin 1));
          confidence0 =
            num_add (num_add (fl 0.35) (num_mul scaleConfidence (fl 0.45)))
                    (num_mul tiltConfidence (fl 0.2));
          confidence1 = (if num_lt pdMm MIN_PD_MM_f64 \<or> num_gt pdMm MAX_PD_MM_f64
                         then num_sub confidence0 (fl 0.3) else confidence0);
          confidence2 = clamp_f64 confidence1 (Fin 0) (Fin 1);
          qualityMessage =
            (if num_ge confidence2 (Fin 0.75) \<and> length issues3 = 0
             then ''Good quality capture. Manual marker check still recommended.''
             else if num_ge confidence2 (Fin 0.5)
             then ''Moderate quality. Consider another capture to confirm.''
             else ''Low confidence - check marker placement and retake.'')
      in \<lparr>pupilPixelDistance_f64 = pupilPixelDistance,
          cardPixelWidth_f64 = cardPixelWidth,
          mmPerPixel_f64 = mmPerPixel,
          pdMm_f64 = pdMm,
          pdMmRounded_f64 = pdMmRounded,
          confidence_f64 = confidence2,
          qualityMessage_f64 = qualityMessage,
          issues_f64 = issues3,
          valid_f64 = (length issues3 = 0)\<rparr>)"

text \<open>
  The value of the local \<open>confidence\<close> before the range penalty and the final clamp, in
  doubles.
\<close>

definition confidence0_f64 :: "MarkerMap \<Rightarrow> number" where
  "confidence0_f64 mks =
     (let cardPixelWidth = distance_f64 (mks LeftCard) (mks RightCard);
          cardTiltRatio =
            num_div (Math_abs_f64 (num_sub (Fin (y (mks LeftCard))) (Fin (y (mks RightCard)))))
                    (Math_max_f64 cardPixelWidth (Fin 1));
          scaleConfidence =
            clamp_f64 (num_div (num_sub cardPixelWidth MIN_CARD_PIXEL_WIDTH_f64) (Fin 220))
                      (Fin 0) (Fin 1);
          tiltConfidence =
            num_sub (Fin 1) (clamp_f64 (num_div cardTiltRatio (fl 0.2)) (Fin 0) (Fin 1))
      in num_add (num_add (fl 0.35) (num_mul scaleConfidence (fl 0.45)))
                 (num_mul tiltConfidence (fl 0.2)))"

section \<open>Concrete inputs\<close>

text \<open>
  The end-to-end scenario of the specification: card corners 400 pixels apart on one
  horizontal line, pupils 200 pixels apart.
\<close>

definition scenario_markers :: MarkerMap where
  "scenario_markers = (\<lambda>key. case key of
       LeftPupil \<Rightarrow> \<lparr>x = 400, y = 480\<rparr>
     | RightPupil \<Rightarrow> \<lparr>x = 600, y = 480\<rparr>
     | LeftCard \<Rightarrow> \<lparr>x = 300, y = 200\<rparr>
     | RightCard \<Rightarrow> \<lparr>x = 700, y = 200\<rparr>)"

text \<open>Both card markers on the same point, pupils 200 pixels apart.\<close>

definition coincident_card_markers :: MarkerMap where
  "coincident_card_markers = (\<lambda>key. case key of
       LeftPupil \<Rightarrow> \<lparr>x = 400, y = 480\<rparr>
     | RightPupil \<Rightarrow> \<lparr>x = 600, y = 480\<rparr>
     | LeftCard \<Rightarrow> \<lparr>x = 300, y = 200\<rparr>
     | RightCard \<Rightarrow> \<lparr>x = 300, y = 200\<rparr>)"

text \<open>
  A card 100 pixels wide on a horizontal line, pupils 70 pixels apart: no issue is
  raised, and the narrow card keeps the confidence moderate.
\<close>

definition moderate_markers :: MarkerMap where
  "moderate_markers = (\<lambda>key. case key of
       LeftPupil \<Rightarrow> \<lparr>x = 0, y = 100\<rparr>
     | RightPupil \<Rightarrow> \<lparr>x = 70, y = 100\<rparr>
     | LeftCard \<Rightarrow> \<lparr>x = 0, y = 0\<rparr>
     | RightCard \<Rightarrow> \<lparr>x = 100, y = 0\<rparr>)"

text \<open>A detector answer that suggests the two pupils and withholds the card corners.\<close>

definition pupils_only :: Suggestions where
  "pupils_only = [(LeftPupil, Some \<lparr>x = 410, y = 470\<rparr>), (RightPupil, Some \<lparr>x = 590, y = 475\<rparr>)]"

text \<open>
  Four markers on one horizontal line. Seen from \<open>origin\<close>, \<open>rightPupil\<close> and
  \<open>leftCard\<close> are both 10 pixels away, \<open>leftPupil\<close> is 50 and \<open>rightCard\<close> 100.
\<close>

definition tie_markers :: MarkerMap where
  "tie_markers = (\<lambda>key. case key of
       LeftPupil \<Rightarrow> \<lparr>x = 50, y = 0\<rparr>
     | RightPupil \<Rightarrow> \<lparr>x = 10, y = 0\<rparr>
     | LeftCard \<Rightarrow> \<lparr>x = - 10, y = 0\<rparr>
     | RightCard \<Rightarrow> \<lparr>x = 100, y = 0\<rparr>)"

definition origin :: Point where
  "origin = \<lparr>x = 0, y = 0\<rparr>"

text \<open>
  A pointer event at position \<open>d\<close> of a canvas whose bounding rectangle starts at the
  origin of the viewport.
\<close>

definition pointer_at :: "Point \<Rightarrow> PointerEvent" where
  "pointer_at d = \<lparr>clientX = x d, clientY = y d, rectLeft = 0, rectTop = 0\<rparr>"

text \<open>A photo of 1000 by 1000 pixels, shown at half size or almost collapsed in width.\<close>

definition square_photo :: CapturedPhoto where
  "square_photo = \<lparr>dataUrl = [], width = 1000, height = 1000, capturedAt = []\<rparr>"

definition half_scale :: Point where
  "half_scale = \<lparr>x = 0.5, y = 0.5\<rparr>"

definition tiny_scale :: Point where
  "tiny_scale = \<lparr>x = 0.00005, y = 1\<rparr>"

text \<open>
  The measurement of \<open>moderate_markers\<close> and an application state in the annotate
  step with nothing saved yet.
\<close>

definition moderate_result :: MeasurementResult where
  "moderate_result =
     \<lparr>pupilPixelDistance = 70,
      cardPixelWidth = 100,
      mmPerPixel = 0.856,
      pdMm = 59.92,
      pdMmRounded = 60,
      confidence = 251 / 440,
      qualityMessage = ''Moderate quality. Consider another capture to confirm.'',
      issues = [],
      valid = True\<rparr>"

definition annotate_state :: AppState where
  "annotate_state =
     \<lparr>step = Annotate, savingError = None, history = [], latestReading = None,
      localStorage = None\<rparr>"

text \<open>
  Inputs for the double arithmetic. \<open>f64_huge\<close> is a double, about \<open>9e307\<close>; twice
  it is beyond \<open>Number.MAX_VALUE\<close>. \<open>tilted_card_markers\<close> has a vertical card
  line of 50 pixels and pupils 10 pixels apart; the other two maps place the card
  markers, or the pupil markers, \<open>2 * f64_huge\<close> apart.
\<close>

definition f64_huge :: real where
  "f64_huge = 2 ^ 1023"

definition tilted_card_markers :: MarkerMap where
  "tilted_card_markers = (\<lambda>key. case key of
       LeftPupil \<Rightarrow> \<lparr>x = 0, y = 0\<rparr>
     | RightPupil \<Rightarrow> \<lparr>x = 10, y = 0\<rparr>
     | LeftCard \<Rightarrow> \<lparr>x = 0, y = 0\<rparr>
     | RightCard \<Rightarrow> \<lparr>x = 0, y = 50\<rparr>)"

definition far_card_markers :: MarkerMap where
  "far_card_markers = (\<lambda>key. case key of
       LeftPupil \<Rightarrow> \<lparr>x = 0, y = 0\<rparr>
     | RightPupil \<Rightarrow> \<lparr>x = 10, y = 0\<rparr>
     | LeftCard \<Rightarrow> \<lparr>x = 0, y = f64_huge\<rparr>
     | RightCard \<Rightarrow> \<lparr>x = 0, y = - f64_huge\<rparr>)"

definition far_pupil_markers :: MarkerMap where
  "far_pupil_markers = (\<lambda>key. case key of
       LeftPupil \<Rightarrow> \<lparr>x = - f64_huge, y = 0\<rparr>
     | RightPupil \<Rightarrow> \<lparr>x = f64_huge, y = 0\<rparr>
     | LeftCard \<Rightarrow> \<lparr>x = 300, y = 200\<rparr>
     | RightCard \<Rightarrow> \<lparr>x = 300, y = 200\<rparr>)"

section \<open>Geometry facts\<close>

lemma Math_hypot_nonneg: "0 \<le> Math_hypot a b"
  by (simp add: Math_hypot_def)

lemma Math_hypot_zero_iff: "Math_hypot a b = 0 \<longleftrightarrow> a = 0 \<and> b = 0"
  by (simp add: Math_hypot_def)

lemma Math_hypot_horizontal: "Math_hypot a 0 = \<bar>a\<bar>"
  by (simp add: Math_hypot_def)

lemma distance_nonneg: "0 \<le> distance a b"
  by (simp add: distance_def Math_hypot_nonneg)

lemma distance_zero_iff: "distance a b = 0 \<longleftrightarrow> a = b"
  by (cases a, cases b) (simp add: distance_def Math_hypot_zero_iff)

lemma distance_same_y: "y a = y b \<Longrightarrow> distance a b = \<bar>x a - x b\<bar>"
  by (simp add: distance_def Math_hypot_horizontal)

section \<open>The measurement in closed form\<close>

text \<open>
  \<open>calculatePd\<close> never divides by zero: the scale is guarded by the test
  \<open>cardPixelWidth > 0\<close> and the tilt ratio divides by \<open>max cardPixelWidth 1\<close>. Its
  result is therefore always \<open>Some\<close> record, the one below.
\<close>

lemma calculatePd_unfold:
  "calculatePd mks = Some
     (let pupilPixelDistance = distance (mks LeftPupil) (mks RightPupil);
          cardPixelWidth = distance (mks LeftCard) (mks RightCard);
          mmPerPixel = (if cardPixelWidth > 0 then CARD_WIDTH_MM / cardPixelWidth else 0);
          pdMm = pupilPixelDistance * mmPerPixel;
          outOfRange = (pdMm < MIN_PD_MM \<or> pdMm > MAX_PD_MM);
          cardTiltRatio = \<bar>y (mks LeftCard) - y (mks RightCard)\<bar> / max cardPixelWidth 1;
          issues3 = (if cardPixelWidth < MIN_CARD_PIXEL_WIDTH then [CardTooClose] else [])
                      @ (if outOfRange then [PdOutOfRange pdMm] else [])
                      @ (if cardTiltRatio > 0.2 then [CardTilted] else []);
          confidence0 = 0.35 + clamp ((cardPixelWidth - MIN_CARD_PIXEL_WIDTH) / 220) 0 1 * 0.45
                          + (1 - clamp (cardTiltRatio / 0.2) 0 1) * 0.2;
          confidence2 = clamp (if outOfRange then confidence0 - 0.3 else confidence0) 0 1
      in \<lparr>pupilPixelDistance = pupilPixelDistance,
          cardPixelWidth = cardPixelWidth,
          mmPerPixel = mmPerPixel,
          pdMm = pdMm,
          pdMmRounded = Math_round (pdMm * 2) / 2,
          confidence = confidence2,
          qualityMessage =
            (if confidence2 \<ge> 0.75 \<and> issues3 = []
             then ''Good quality capture. Manual marker check still recommended.''
             else if confidence2 \<ge> 0.5
             then ''Moderate quality. Consider another capture to confirm.''
             else ''Low confidence - check marker placement and retake.''),
          issues = issues3,
          valid = (issues3 = [])\<rparr>)"
proof -
  have m1: "max (distance (mks LeftCard) (mks RightCard)) 1 \<noteq> 0"
    by (simp add: max_def)
  show ?thesis
    unfolding calculatePd_def js_div_def Let_def
    using m1 by (simp del: max.absorb1 max.absorb2 max.absorb3 max.absorb4)
qed

section \<open>Confidence\<close>

lemma clamp_ge0: "0 \<le> clamp v 0 1"
  by (simp add: clamp_def)

lemma clamp_le1: "clamp v 0 1 \<le> 1"
  by (simp add: clamp_def)

lemma clamp_id: "lo \<le> v \<Longrightarrow> v \<le> hi \<Longrightarrow> clamp v lo hi = v"
  by (simp add: clamp_def)

lemma base_confidence_bounds:
  "0.35 \<le> 0.35 + clamp a 0 1 * 0.45 + (1 - clamp b 0 1) * 0.2
   \<and> 0.35 + clamp a 0 1 * 0.45 + (1 - clamp b 0 1) * 0.2 \<le> 1"
  using clamp_ge0 [of a] clamp_le1 [of a] clamp_ge0 [of b] clamp_le1 [of b]
  by (simp; argo)

lemma confidence0_bounds: "0.35 \<le> confidence0 mks \<and> confidence0 mks \<le> 1"
  unfolding confidence0_def Let_def by (rule base_confidence_bounds)

lemma calculatePd_confidence:
  "\<exists>r. calculatePd mks = Some r
       \<and> confidence r = clamp (if pdMm r < MIN_PD_MM \<or> pdMm r > MAX_PD_MM
                               then confidence0 mks - 0.3 else confidence0 mks) 0 1
       \<and> cardPixelWidth r = distance (mks LeftCard) (mks RightCard)"
  unfolding calculatePd_unfold confidence0_def Let_def by simp

text \<open>
  Claim C2. The confidence that \<open>calculatePd\<close> returns is the formula of the
  specification, \<open>clamp(0.35 + 0.45*scaleConfidence + 0.20*tiltConfidence, 0, 1)\<close>
  with \<open>scaleConfidence = clamp((cardPixelWidth - 90) / 220, 0, 1)\<close> and
  \<open>tiltConfidence = 1 - clamp(tiltRatio / 0.2, 0, 1)\<close>, less 0.3 exactly when
  \<open>pdMm\<close> is below 45 or above 80, clamped again to \<open>[0,1]\<close>. The code clamps
  once, at the end; the first clamp of the specification changes nothing because the
  base score is between 0.35 and 1.
\<close>

theorem calculatePd_confidence_spec:
  "\<exists>r. calculatePd mks = Some r
       \<and> confidence r =
           spec_confidence (cardPixelWidth r) (spec_tiltRatio mks (cardPixelWidth r)) (pdMm r)"
proof -
  obtain r where r: "calculatePd mks = Some r"
    "confidence r = clamp (if pdMm r < MIN_PD_MM \<or> pdMm r > MAX_PD_MM
                               then confidence0 mks - 0.3 else confidence0 mks) 0 1"
    "cardPixelWidth r = distance (mks LeftCard) (mks RightCard)"
    using calculatePd_confidence by blast
  define a where "a = (cardPixelWidth r - 90) / 220"
  define b where "b = spec_tiltRatio mks (cardPixelWidth r) / 0.2"
  have c0: "confidence0 mks = 0.35 + clamp a 0 1 * 0.45 + (1 - clamp b 0 1) * 0.2"
    by (simp add: confidence0_def Let_def a_def b_def spec_tiltRatio_def r(3)
        MIN_CARD_PIXEL_WIDTH_def)
  have same: "0.35 + 0.45 * clamp a 0 1 + 0.20 * (1 - clamp b 0 1) = confidence0 mks"
    by (simp add: c0)
  have "0 \<le> confidence0 mks" and "confidence0 mks \<le> 1"
    using confidence0_bounds [of mks] by simp_all
  then have "clamp (confidence0 mks) 0 1 = confidence0 mks"
    by (rule clamp_id)
  then have inner: "clamp (0.35 + 0.45 * clamp a 0 1 + 0.20 * (1 - clamp b 0 1)) 0 1
                 = confidence0 mks"
    by (simp only: same)
  have "confidence r =
          spec_confidence (cardPixelWidth r) (spec_tiltRatio mks (cardPixelWidth r)) (pdMm r)"
    unfolding spec_confidence_def spec_scaleConfidence_def spec_tiltConfidence_def Let_def
    using inner by (simp add: r(2) a_def b_def MIN_PD_MM_def MAX_PD_MM_def)
  with r(1) show ?thesis by blast
qed

section \<open>The end-to-end scenario\<close>

text \<open>
  Claim C7. For \<open>leftCard = (300,200)\<close>, \<open>rightCard = (700,200)\<close>,
  \<open>leftPupil = (400,480)\<close>, \<open>rightPupil = (600,480)\<close> the result has
  \<open>mmPerPixel = 85.6 / 400 = 0.214\<close>, \<open>pdMm = 42.8\<close>, \<open>pdMmRounded = 43\<close>, the
  out-of-range issue (for 42.8) and \<open>valid = false\<close>. The other fields are determined
  as well.
\<close>

theorem calculatePd_scenario:
  "calculatePd scenario_markers =
     Some \<lparr>pupilPixelDistance = 200,
           cardPixelWidth = 400,
           mmPerPixel = 0.214,
           pdMm = 42.8,
           pdMmRounded = 43,
           confidence = 0.7,
           qualityMessage = ''Moderate quality. Consider another capture to confirm.'',
           issues = [PdOutOfRange 42.8],
           valid = False\<rparr>
   \<and> (0.214::real) = 85.6 / 400"
proof -
  have d1: "distance (scenario_markers LeftPupil) (scenario_markers RightPupil) = 200"
    by (simp add: scenario_markers_def distance_same_y)
  have d2: "distance (scenario_markers LeftCard) (scenario_markers RightCard) = 400"
    by (simp add: scenario_markers_def distance_same_y)
  have ys: "y (scenario_markers LeftCard) = 200" "y (scenario_markers RightCard) = 200"
    by (simp_all add: scenario_markers_def)
  have r: "Math_round (428 / 5) = 86"
    by (simp add: Math_round_def)
  show ?thesis
    unfolding calculatePd_unfold d1 d2 ys Let_def
    by (simp add: CARD_WIDTH_MM_def MIN_CARD_PIXEL_WIDTH_def MIN_PD_MM_def MAX_PD_MM_def
        clamp_def r)
qed

section \<open>Rounding law\<close>







section \<open>Quality message\<close>

text \<open>
  Claim C8. The quality message is the "good" one exactly when the confidence is at least
  0.75 and there is no issue, otherwise the "moderate" one exactly when the confidence is
  at least 0.5, otherwise the "low" one; \<open>valid\<close> says only that there is no issue.
  For the marker map \<open>moderate_markers\<close> the result is valid, without issues, and its
  message is the "moderate" one.
\<close>

theorem qualityMessage_selection:
  "(\<exists>r. calculatePd mks = Some r
       \<and> valid r = (issues r = [])
       \<and> qualityMessage r =
           (if confidence r \<ge> 0.75 \<and> issues r = []
            then ''Good quality capture. Manual marker check still recommended.''
            else if confidence r \<ge> 0.5
            then ''Moderate quality. Consider another capture to confirm.''
            else ''Low confidence - check marker placement and retake.'')
       \<and> (qualityMessage r = ''Good quality capture. Manual marker check still recommended.''
            \<longleftrightarrow> confidence r \<ge> 0.75 \<and> issues r = [])
       \<and> (qualityMessage r = ''Moderate quality. Consider another capture to confirm.''
            \<longleftrightarrow> \<not> (confidence r \<ge> 0.75 \<and> issues r = []) \<and> confidence r \<ge> 0.5)
       \<and> (qualityMessage r = ''Low confidence - check marker placement and retake.''
            \<longleftrightarrow> confidence r < 0.5))
   \<and> calculatePd moderate_markers =
       Some \<lparr>pupilPixelDistance = 70,
             cardPixelWidth = 100,
             mmPerPixel = 0.856,
             pdMm = 59.92,
             pdMmRounded = 60,
             confidence = 251 / 440,
             qualityMessage = ''Moderate quality. Consider another capture to confirm.'',
             issues = [],
             valid = True\<rparr>"
proof -
  have u: "\<exists>r. calculatePd mks = Some r
       \<and> valid r = (issues r = [])
       \<and> qualityMessage r =
           (if confidence r \<ge> 0.75 \<and> issues r = []
            then ''Good quality capture. Manual marker check still recommended.''
            else if confidence r \<ge> 0.5
            then ''Moderate quality. Consider another capture to confirm.''
            else ''Low confidence - check marker placement and retake.'')"
    unfolding calculatePd_unfold Let_def by simp
  then obtain r where r: "calculatePd mks = Some r" "valid r = (issues r = [])"
    "qualityMessage r =
           (if confidence r \<ge> 0.75 \<and> issues r = []
            then ''Good quality capture. Manual marker check still recommended.''
            else if confidence r \<ge> 0.5
            then ''Moderate quality. Consider another capture to confirm.''
            else ''Low confidence - check marker placement and retake.'')"
    by blast
  have g: "qualityMessage r = ''Good quality capture. Manual marker check still recommended.''
            \<longleftrightarrow> confidence r \<ge> 0.75 \<and> issues r = []"
    unfolding r(3) by simp
  have m: "qualityMessage r = ''Moderate quality. Consider another capture to confirm.''
            \<longleftrightarrow> \<not> (confidence r \<ge> 0.75 \<and> issues r = []) \<and> confidence r \<ge> 0.5"
    unfolding r(3) by simp
  have l: "qualityMessage r = ''Low confidence - check marker placement and retake.''
            \<longleftrightarrow> confidence r < 0.5"
    unfolding r(3) by auto
  have d1: "distance (moderate_markers LeftPupil) (moderate_markers RightPupil) = 70"
    by (simp add: moderate_markers_def distance_same_y)
  have d2: "distance (moderate_markers LeftCard) (moderate_markers RightCard) = 100"
    by (simp add: moderate_markers_def distance_same_y)
  have ys: "y (moderate_markers LeftCard) = 0" "y (moderate_markers RightCard) = 0"
    by (simp_all add: moderate_markers_def)
  have rd: "Math_round (2996 / 25) = 120"
    by (simp add: Math_round_def)
  have c: "calculatePd moderate_markers =
       Some \<lparr>pupilPixelDistance = 70,
             cardPixelWidth = 100,
             mmPerPixel = 0.856,
             pdMm = 59.92,
             pdMmRounded = 60,
             confidence = 251 / 440,
             qualityMessage = ''Moderate quality. Consider another capture to confirm.'',
             issues = [],
             valid = True\<rparr>"
    unfolding calculatePd_unfold d1 d2 ys Let_def
    by (simp add: CARD_WIDTH_MM_def MIN_CARD_PIXEL_WIDTH_def MIN_PD_MM_def MAX_PD_MM_def
        clamp_def rd)
  from r g m l c show ?thesis by blast
qed

section \<open>Auto-suggest merge\<close>

lemma merge_step_apply:
  "merge_step s a cur k =
     (if a = k then (case suggestion_at s k of Some p \<Rightarrow> p | None \<Rightarrow> cur k) else cur k)"
  by (simp add: merge_step_def split: option.splits)

lemma fold_merge_step:
  "fold (merge_step s) ks cur k =
     (if k \<in> set ks then (case suggestion_at s k of Some p \<Rightarrow> p | None \<Rightarrow> cur k) else cur k)"
proof (induction ks arbitrary: cur)
  case Nil
  then show ?case by simp
next
  case (Cons a ks)
  have "fold (merge_step s) (a # ks) cur k = fold (merge_step s) ks (merge_step s a cur) k"
    by simp
  also have "\<dots> = (if k \<in> set ks
                    then (case suggestion_at s k of Some p \<Rightarrow> p | None \<Rightarrow> merge_step s a cur k)
                    else merge_step s a cur k)"
    by (rule Cons.IH)
  also have "\<dots> = (if k \<in> set (a # ks)
                    then (case suggestion_at s k of Some p \<Rightarrow> p | None \<Rightarrow> cur k)
                    else cur k)"
    by (simp add: merge_step_apply split: option.splits)
  finally show ?case .
qed

lemma suggestion_at_missing: "k \<notin> set (suggestion_keys s) \<Longrightarrow> suggestion_at s k = None"
  by (simp add: suggestion_keys_def suggestion_at_def map_of_eq_None_iff [THEN iffD2])

lemma merge_suggestions_apply:
  "merge_suggestions m s k = (case suggestion_at s k of Some p \<Rightarrow> p | None \<Rightarrow> m k)"
proof (cases "k \<in> set (suggestion_keys s)")
  case True
  then show ?thesis by (simp add: merge_suggestions_def fold_merge_step)
next
  case False
  then show ?thesis
    by (simp add: merge_suggestions_def fold_merge_step suggestion_at_missing)
qed

text \<open>
  Claim C3. For every marker map \<open>m\<close> and every suggestion object \<open>s\<close>, the merged
  map has, at each key, the point of \<open>s\<close> when \<open>s\<close> supplies one for that key, and the
  point of \<open>m\<close> when it does not (the key is missing or holds \<open>undefined\<close>). The
  result is again a total marker map, and on a \<open>success\<close> answer \<open>runAutoDetect\<close>
  replaces the markers by exactly this merge.
\<close>

theorem merge_suggestions_per_key:
  "(\<forall>k p. suggestion_at s k = Some p \<longrightarrow> merge_suggestions m s k = p)
   \<and> (\<forall>k. suggestion_at s k = None \<longrightarrow> merge_suggestions m s k = m k)
   \<and> runAutoDetect_setMarkers \<lparr>status = Success, suggestions = s, message = msg\<rparr> (Some m)
       = Some (merge_suggestions m s)"
  by (simp add: merge_suggestions_apply runAutoDetect_setMarkers_def)

theorem merge_suggestions_per_key_witness:
  "suggestion_at pupils_only LeftPupil = Some \<lparr>x = 410, y = 470\<rparr>
   \<and> merge_suggestions scenario_markers pupils_only LeftPupil = \<lparr>x = 410, y = 470\<rparr>
   \<and> suggestion_at pupils_only LeftCard = None
   \<and> merge_suggestions scenario_markers pupils_only LeftCard = \<lparr>x = 300, y = 200\<rparr>"
proof -
  have a: "suggestion_at pupils_only LeftPupil = Some \<lparr>x = 410, y = 470\<rparr>"
    by (simp add: suggestion_at_def pupils_only_def)
  have b: "suggestion_at pupils_only LeftCard = None"
    by (simp add: suggestion_at_def pupils_only_def)
  have c: "scenario_markers LeftCard = \<lparr>x = 300, y = 200\<rparr>"
    by (simp add: scenario_markers_def)
  show ?thesis
    using merge_suggestions_per_key [of pupils_only scenario_markers] a b c by simp
qed

section \<open>Coordinate mapping\<close>

lemma getImagePointFromEvent_unfold:
  "getImagePointFromEvent scale photo event =
     Some \<lparr>x = clamp ((clientX event - rectLeft event) / max (x scale) 0.0001) 0 (width photo),
           y = clamp ((clientY event - rectTop event) / max (y scale) 0.0001) 0 (height photo)\<rparr>"
proof -
  have "max (x scale) 0.0001 \<noteq> 0" and "max (y scale) 0.0001 \<noteq> 0"
    by (simp_all add: max_def)
  then show ?thesis
    by (simp add: getImagePointFromEvent_def js_div_def Let_def
        del: max.absorb1 max.absorb2 max.absorb3 max.absorb4)
qed

lemma clamp_within: "lo \<le> hi \<Longrightarrow> lo \<le> clamp v lo hi \<and> clamp v lo hi \<le> hi"
  by (simp add: clamp_def)

text \<open>
  Claim C4, amended. \<open>getImagePointFromEvent\<close> divides by \<open>max(scale, 0.0001)\<close>, not
  by the scale, so mapping to display space and back returns the point for scale factors
  of at least 0.0001 (exactly, in real arithmetic). For every scale, every pointer
  position and every photo with non-negative dimensions (a captured photo has the
  pixel dimensions of its canvas) the result lies in \<open>[0, width] x [0, height]\<close>.
\<close>

theorem coordinate_round_trip:
  "(1 / 10000 \<le> x scale \<and> 1 / 10000 \<le> y scale
      \<and> 0 \<le> x p \<and> x p \<le> width photo \<and> 0 \<le> y p \<and> y p \<le> height photo
      \<and> clientX event - rectLeft event = x (toCanvas scale p)
      \<and> clientY event - rectTop event = y (toCanvas scale p)
    \<longrightarrow> getImagePointFromEvent scale photo event = Some p)
   \<and> (0 \<le> width photo \<and> 0 \<le> height photo
    \<longrightarrow> (\<exists>q. getImagePointFromEvent scale photo event = Some q
             \<and> 0 \<le> x q \<and> x q \<le> width photo \<and> 0 \<le> y q \<and> y q \<le> height photo))"
proof -
  have rt: "getImagePointFromEvent scale photo event = Some p"
    if sx: "1 / 10000 \<le> x scale" and sy: "1 / 10000 \<le> y scale"
      and bx: "0 \<le> x p" "x p \<le> width photo" and yb: "0 \<le> y p" "y p \<le> height photo"
      and ex: "clientX event - rectLeft event = x (toCanvas scale p)"
      and ey: "clientY event - rectTop event = y (toCanvas scale p)"
  proof -
    have mx: "max (x scale) 0.0001 = x scale" and my: "max (y scale) 0.0001 = y scale"
      using sx sy by (simp_all add: max_def)
    have nz: "x scale \<noteq> 0" "y scale \<noteq> 0"
      using sx sy by auto
    have qx: "(clientX event - rectLeft event) / max (x scale) 0.0001 = x p"
      unfolding mx ex using nz by (simp add: toCanvas_def)
    have qy: "(clientY event - rectTop event) / max (y scale) 0.0001 = y p"
      unfolding my ey using nz by (simp add: toCanvas_def)
    show ?thesis
      unfolding getImagePointFromEvent_unfold qx qy
      using bx yb by (simp add: clamp_id)
  qed
  have inside: "\<exists>q. getImagePointFromEvent scale photo event = Some q
             \<and> 0 \<le> x q \<and> x q \<le> width photo \<and> 0 \<le> y q \<and> y q \<le> height photo"
    if "0 \<le> width photo" and "0 \<le> height photo"
    unfolding getImagePointFromEvent_unfold
    using clamp_within [OF that(1)] clamp_within [OF that(2)] by simp
  show ?thesis
    using rt inside by blast
qed

theorem coordinate_round_trip_witness:
  "getImagePointFromEvent half_scale square_photo (pointer_at (toCanvas half_scale \<lparr>x = 100, y = 40\<rparr>))
     = Some \<lparr>x = 100, y = 40\<rparr>
   \<and> (\<exists>q. getImagePointFromEvent half_scale square_photo (pointer_at \<lparr>x = 900, y = - 30\<rparr>) = Some q
         \<and> 0 \<le> x q \<and> x q \<le> 1000 \<and> 0 \<le> y q \<and> y q \<le> 1000)"
  using coordinate_round_trip [of half_scale "\<lparr>x = 100, y = 40\<rparr>" square_photo
          "pointer_at (toCanvas half_scale \<lparr>x = 100, y = 40\<rparr>)"]
        coordinate_round_trip [of half_scale "\<lparr>x = 100, y = 40\<rparr>" square_photo
          "pointer_at \<lparr>x = 900, y = - 30\<rparr>"]
  by (simp add: half_scale_def square_photo_def pointer_at_def toCanvas_def)

text \<open>
  Claim C4 as stated fails for a positive scale below 0.0001: at scale 0.00005 the point
  \<open>(100, 0)\<close> of a 1000 by 1000 photo comes back as \<open>(50, 0)\<close>.
\<close>

theorem coordinate_round_trip_small_scale_counterexample:
  "0 < x tiny_scale \<and> 0 < y tiny_scale
   \<and> (0::real) \<le> 100 \<and> 100 \<le> width square_photo \<and> (0::real) \<le> 0 \<and> 0 \<le> height square_photo
   \<and> getImagePointFromEvent tiny_scale square_photo
        (pointer_at (toCanvas tiny_scale \<lparr>x = 100, y = 0\<rparr>))
       = Some \<lparr>x = 50, y = 0\<rparr>
   \<and> getImagePointFromEvent tiny_scale square_photo
        (pointer_at (toCanvas tiny_scale \<lparr>x = 100, y = 0\<rparr>))
       \<noteq> Some \<lparr>x = 100, y = 0\<rparr>"
  unfolding getImagePointFromEvent_unfold
  by (simp add: tiny_scale_def square_photo_def pointer_at_def toCanvas_def clamp_def)

section \<open>Hit-testing\<close>

lemma all_MarkerKey:
  "(\<forall>k. P k) \<longleftrightarrow> P LeftPupil \<and> P RightPupil \<and> P LeftCard \<and> P RightCard"
  by (metis MarkerKey.exhaust)

lemma nearestMarker_None_iff:
  "nearestMarker p m = None \<longleftrightarrow> (\<forall>k. 26 \<le> distance p (m k))"
  unfolding all_MarkerKey nearestMarker_def marker_keys_def nearest_step_def Let_def
  by (auto split: if_splits)

lemma nearestMarker_Some:
  "nearestMarker p m = Some k \<Longrightarrow>
     distance p (m k) < 26
     \<and> (\<forall>k'. distance p (m k) \<le> distance p (m k'))
     \<and> (\<forall>k'. distance p (m k') = distance p (m k) \<longrightarrow> key_index k \<le> key_index k')"
  unfolding all_MarkerKey nearestMarker_def marker_keys_def nearest_step_def Let_def
  by (auto split: if_splits)

text \<open>
  Claim C5. \<open>nearestMarker\<close> returns no marker exactly when every marker is at distance
  26 or more, and then \<open>handlePointerDown\<close> leaves the active marker as it was. A
  marker it returns is nearer than 26, no marker is nearer than it, and every marker at
  the same distance comes later in the enumeration order \<open>leftPupil\<close>, \<open>rightPupil\<close>,
  \<open>leftCard\<close>, \<open>rightCard\<close>.
\<close>

theorem nearestMarker_pick:
  "(nearestMarker p m = None \<longleftrightarrow> (\<forall>k. 26 \<le> distance p (m k)))
   \<and> (\<forall>k. nearestMarker p m = Some k \<longrightarrow>
          distance p (m k) < 26
          \<and> (\<forall>k'. distance p (m k) \<le> distance p (m k'))
          \<and> (\<forall>k'. distance p (m k') = distance p (m k) \<longrightarrow> key_index k \<le> key_index k'))
   \<and> (getImagePointFromEvent scale photo event = Some p \<and> (\<forall>k. 26 \<le> distance p (m k))
        \<longrightarrow> handlePointerDown scale photo m event active = Some active)"
proof -
  have noop: "handlePointerDown scale photo m event active = Some active"
    if "getImagePointFromEvent scale photo event = Some p" and "\<forall>k. 26 \<le> distance p (m k)"
  proof -
    have "nearestMarker p m = None"
      using that(2) by (simp add: nearestMarker_None_iff)
    then show ?thesis
      by (simp add: handlePointerDown_def that(1))
  qed
  show ?thesis
    using nearestMarker_None_iff [of p m] nearestMarker_Some [of p m] noop by blast
qed

theorem nearestMarker_pick_witness:
  "nearestMarker origin tie_markers = Some RightPupil
   \<and> distance origin (tie_markers RightPupil) = 10
   \<and> distance origin (tie_markers LeftCard) = 10
   \<and> distance origin (tie_markers RightPupil) < 26
   \<and> distance origin (tie_markers RightPupil) \<le> distance origin (tie_markers LeftPupil)
   \<and> key_index RightPupil \<le> key_index LeftCard"
proof -
  have d: "distance origin (tie_markers LeftPupil) = 50"
    "distance origin (tie_markers RightPupil) = 10"
    "distance origin (tie_markers LeftCard) = 10"
    "distance origin (tie_markers RightCard) = 100"
    by (simp_all add: origin_def tie_markers_def distance_same_y)
  have pick: "nearestMarker origin tie_markers = Some RightPupil"
    by (simp add: nearestMarker_def marker_keys_def nearest_step_def d)
  show ?thesis
    using nearestMarker_pick [of origin tie_markers] pick d by simp
qed

section \<open>Saved readings\<close>

text \<open>
  Claim C10. When \<open>saveCurrentReading\<close> saves (photo, markers and a valid measurement
  are present), the reading it builds, remembers as latest and hands to storage has
  \<open>pdMm\<close> equal to the measurement's \<open>pdMmRounded\<close>. The measurement's unrounded
  \<open>pdMm\<close> is not read at all: changing it changes nothing in the outcome.
\<close>

theorem saveCurrentReading_stores_rounded:
  "(valid ms \<longrightarrow>
      (\<exists>reading.
          latestReading (saveCurrentReading newId now writeFails (Some ph) (Some mk) (Some ms) st)
            = Some reading
          \<and> localStorage (saveCurrentReading newId now writeFails (Some ph) (Some mk) (Some ms) st)
              = (if writeFails then localStorage st
                 else Some (take 25 (reading # loadReadings (localStorage st))))
          \<and> SavedReading.pdMm reading = pdMmRounded ms
          \<and> reading =
              \<lparr>id = newId, savedAt = now, sourceCapturedAt = capturedAt ph,
               pdMm = pdMmRounded ms, confidence = confidence ms,
               qualityMessage = qualityMessage ms, valid = valid ms, issues = issues ms,
               markers = mk, pupilPixelDistance = pupilPixelDistance ms,
               cardPixelWidth = cardPixelWidth ms, mmPerPixel = mmPerPixel ms\<rparr>))
   \<and> saveCurrentReading newId now writeFails photo mks
         (map_option (\<lambda>r. r\<lparr>pdMm := v\<rparr>) measurement) st
       = saveCurrentReading newId now writeFails photo mks measurement st"
proof -
  have a: "\<exists>reading.
          latestReading (saveCurrentReading newId now writeFails (Some ph) (Some mk) (Some ms) st)
            = Some reading
          \<and> localStorage (saveCurrentReading newId now writeFails (Some ph) (Some mk) (Some ms) st)
              = (if writeFails then localStorage st
                 else Some (take 25 (reading # loadReadings (localStorage st))))
          \<and> SavedReading.pdMm reading = pdMmRounded ms
          \<and> reading =
              \<lparr>id = newId, savedAt = now, sourceCapturedAt = capturedAt ph,
               pdMm = pdMmRounded ms, confidence = confidence ms,
               qualityMessage = qualityMessage ms, valid = valid ms, issues = issues ms,
               markers = mk, pupilPixelDistance = pupilPixelDistance ms,
               cardPixelWidth = cardPixelWidth ms, mmPerPixel = mmPerPixel ms\<rparr>"
    if "valid ms"
    using that by (simp add: saveCurrentReading_def saveReading_def Let_def)
  have b: "saveCurrentReading newId now writeFails photo mks
         (map_option (\<lambda>r. r\<lparr>pdMm := v\<rparr>) measurement) st
       = saveCurrentReading newId now writeFails photo mks measurement st"
    by (cases photo; cases mks; cases measurement)
       (simp_all add: saveCurrentReading_def)
  show ?thesis
    using a b by blast
qed

theorem saveCurrentReading_stores_rounded_witness:
  "valid moderate_result
   \<and> pdMm moderate_result = 59.92
   \<and> latestReading (saveCurrentReading ''r1'' ''t1'' False (Some square_photo)
         (Some moderate_markers) (Some moderate_result) annotate_state)
       = Some \<lparr>id = ''r1'', savedAt = ''t1'', sourceCapturedAt = [],
               pdMm = 60, confidence = 251 / 440,
               qualityMessage = ''Moderate quality. Consider another capture to confirm.'',
               valid = True, issues = [],
               markers = moderate_markers, pupilPixelDistance = 70,
               cardPixelWidth = 100, mmPerPixel = 0.856\<rparr>"
proof -
  have v: "valid moderate_result"
    by (simp add: moderate_result_def)
  show ?thesis
    using saveCurrentReading_stores_rounded
      [of moderate_result "''r1''" "''t1''" False square_photo moderate_markers annotate_state]
      v
    by (auto simp add: moderate_result_def square_photo_def)
qed

section \<open>Rounding to the nearest double\<close>

lemma round_half_even_ge: "of_int j \<le> t \<Longrightarrow> j \<le> round_half_even t"
  unfolding round_half_even_def Let_def by (auto; linarith)

lemma round_half_even_le: "t \<le> of_int j \<Longrightarrow> round_half_even t \<le> j"
  unfolding round_half_even_def Let_def by (auto; linarith)

lemma round_half_even_of_int: "round_half_even (of_int j) = j"
  unfolding round_half_even_def Let_def by simp

lemma f64_round_minus: "f64_round (- v) = - f64_round v"
  by (simp add: f64_round_def f64_ulp_def f64_exponent_def sgn_minus)

lemma f64_ulp_pos: "0 < f64_ulp v"
  by (simp add: f64_ulp_def)

lemma floor_log2_bounds:
  assumes "0 < v"
  shows "2 powi \<lfloor>log 2 v\<rfloor> \<le> v" and "v < 2 powi (\<lfloor>log 2 v\<rfloor> + 1)"
proof -
  have p1: "2 powr (real_of_int \<lfloor>log 2 v\<rfloor> + 1) = 2 powi (\<lfloor>log 2 v\<rfloor> + 1)"
    using powr_real_of_int' [of 2 "\<lfloor>log 2 v\<rfloor> + 1"] by simp
  have "2 powr real_of_int \<lfloor>log 2 v\<rfloor> \<le> v \<and> v < 2 powr (real_of_int \<lfloor>log 2 v\<rfloor> + 1)"
    using floor_log_eq_powr_iff [of v 2 "\<lfloor>log 2 v\<rfloor>"] assms by simp
  then show "2 powi \<lfloor>log 2 v\<rfloor> \<le> v" and "v < 2 powi (\<lfloor>log 2 v\<rfloor> + 1)"
    by (simp_all add: powr_real_of_int' p1)
qed

lemma floor_log2_eq:
  assumes "2 powi e \<le> v" and "v < 2 powi (e + 1)"
  shows "\<lfloor>log 2 v\<rfloor> = e"
proof -
  have pos: "0 < v"
    using assms(1) zero_less_power_int [of "2::real" e] by linarith
  have p1: "2 powr (real_of_int e + 1) = 2 powi (e + 1)"
    using powr_real_of_int' [of 2 "e + 1"] by simp
  have "2 powr real_of_int e \<le> v \<and> v < 2 powr (real_of_int e + 1)"
    using assms by (simp add: powr_real_of_int' p1)
  then show ?thesis
    using floor_log_eq_powr_iff [of v 2 e] pos by simp
qed

lemma f64_round_pos:
  "0 < v \<Longrightarrow> f64_round v = of_int (round_half_even (v / f64_ulp v)) * f64_ulp v"
  by (simp add: f64_round_def)

lemma f64_round_lower_pos:
  assumes v: "0 < v" and r: "is_f64 r" and le: "r \<le> v"
  shows "r \<le> f64_round v"
proof -
  define e where "e = f64_exponent v"
  define q where "q = f64_ulp v"
  define n where "n = round_half_even (v / q)"
  have q: "q = 2 powi (e - 52)" and qpos: "0 < q"
    by (simp_all add: q_def e_def f64_ulp_def)
  have fr: "f64_round v = of_int n * q"
    using v by (simp add: f64_round_pos n_def q_def)
  show ?thesis
  proof (cases "r \<le> 0")
    case True
    have "of_int 0 \<le> v / q"
      using v qpos by simp
    then have "0 \<le> n"
      unfolding n_def by (rule round_half_even_ge)
    then have "0 \<le> of_int n * q"
      using qpos by simp
    with True show ?thesis by (simp add: fr)
  next
    case False
    obtain m k where mk: "r = of_int m * 2 powi k" "\<bar>m\<bar> < 2 ^ 53" "- 1074 \<le> k"
      using r unfolding is_f64_def by blast
    show ?thesis
    proof (cases "e - 52 \<le> k")
      case True
      define j where "j = m * 2 ^ nat (k - (e - 52))"
      have "(2::real) powi k = 2 powi (k - (e - 52)) * 2 powi (e - 52)"
        by (simp flip: power_int_add)
      also have "(2::real) powi (k - (e - 52)) = 2 ^ nat (k - (e - 52))"
        using True by (simp add: power_int_def)
      finally have rj: "r = of_int j * q"
        by (simp add: mk(1) j_def q)
      have "of_int j \<le> v / q"
        using le qpos by (simp add: rj pos_le_divide_eq)
      then have "j \<le> n"
        unfolding n_def by (rule round_half_even_ge)
      then have "of_int j * q \<le> of_int n * q"
        using qpos by simp
      then show ?thesis by (simp add: fr rj)
    next
      case False
      then have ke: "k \<le> e - 53" by simp
      with mk(3) have "- 1022 < e" by simp
      then have ee: "e = \<lfloor>log 2 v\<rfloor>"
        using v unfolding e_def f64_exponent_def by simp
      have lo: "2 powi e \<le> v"
        using floor_log2_bounds(1) [OF v] by (simp add: ee)
      have split: "(2::real) powi e = 2 ^ 52 * 2 powi (e - 52)"
        using power_int_add [of "2::real" 52 "e - 52"] by simp
      then have "of_int (2 ^ 52) \<le> v / q"
        using lo qpos by (simp add: q pos_le_divide_eq)
      then have "2 ^ 52 \<le> n"
        unfolding n_def by (rule round_half_even_ge)
      then have "of_int (2 ^ 52) * q \<le> of_int n * q"
        using qpos by (simp only: of_int_le_iff mult_le_cancel_right_pos)
      then have big: "2 powi e \<le> of_int n * q"
        using split by (simp add: q)
      have "of_int m < (2::real) ^ 53"
        using mk(2) by (metis abs_less_iff of_int_less_iff of_int_numeral of_int_power)
      then have "r < 2 ^ 53 * 2 powi k"
        by (simp add: mk(1))
      also have "\<dots> = 2 powi (k + 53)"
        by (simp add: power_int_add)
      also have "\<dots> \<le> 2 powi e"
        using ke by (intro power_int_increasing) simp_all
      finally show ?thesis
        using big by (simp add: fr)
    qed
  qed
qed

lemma f64_round_upper_pos:
  assumes v: "0 < v" and r: "is_f64 r" and le: "v \<le> r"
  shows "f64_round v \<le> r"
proof -
  define e where "e = f64_exponent v"
  define q where "q = f64_ulp v"
  define n where "n = round_half_even (v / q)"
  have q: "q = 2 powi (e - 52)" and qpos: "0 < q"
    by (simp_all add: q_def e_def f64_ulp_def)
  have fr: "f64_round v = of_int n * q"
    using v by (simp add: f64_round_pos n_def q_def)
  obtain m k where mk: "r = of_int m * 2 powi k" "\<bar>m\<bar> < 2 ^ 53" "- 1074 \<le> k"
    using r unfolding is_f64_def by blast
  show ?thesis
  proof (cases "e - 52 \<le> k")
    case True
    define j where "j = m * 2 ^ nat (k - (e - 52))"
    have "(2::real) powi k = 2 powi (k - (e - 52)) * 2 powi (e - 52)"
      by (simp flip: power_int_add)
    also have "(2::real) powi (k - (e - 52)) = 2 ^ nat (k - (e - 52))"
      using True by (simp add: power_int_def)
    finally have rj: "r = of_int j * q"
      by (simp add: mk(1) j_def q)
    have "v / q \<le> of_int j"
      using le qpos by (simp add: rj pos_divide_le_eq)
    then have "n \<le> j"
      unfolding n_def by (rule round_half_even_le)
    then have "of_int n * q \<le> of_int j * q"
      using qpos by simp
    then show ?thesis by (simp add: fr rj)
  next
    case False
    then have ke: "k \<le> e - 53" by simp
    with mk(3) have "- 1022 < e" by simp
    then have ee: "e = \<lfloor>log 2 v\<rfloor>"
      using v unfolding e_def f64_exponent_def by simp
    have lo: "2 powi e \<le> v"
      using floor_log2_bounds(1) [OF v] by (simp add: ee)
    have "of_int m < (2::real) ^ 53"
      using mk(2) by (metis abs_less_iff of_int_less_iff of_int_numeral of_int_power)
    then have "r < 2 ^ 53 * 2 powi k"
      by (simp add: mk(1))
    also have "\<dots> = 2 powi (k + 53)"
      by (simp add: power_int_add)
    also have "\<dots> \<le> 2 powi e"
      using ke by (intro power_int_increasing) simp_all
    finally have "r < v"
      using lo by simp
    with le show ?thesis by simp
  qed
qed

lemma is_f64_minus: "is_f64 (- r) \<longleftrightarrow> is_f64 r"
proof -
  have "is_f64 (- s)" if s: "is_f64 s" for s
  proof -
    obtain m k where mk: "s = of_int m * 2 powi k" "\<bar>m\<bar> < 2 ^ 53" "- 1074 \<le> k"
      using s unfolding is_f64_def by blast
    have "- s = of_int (- m) * 2 powi k" "\<bar>- m\<bar> < 2 ^ 53"
      using mk by simp_all
    with mk(3) show ?thesis unfolding is_f64_def by blast
  qed
  from this [of r] this [of "- r"] show ?thesis by auto
qed

lemma is_f64_zero: "is_f64 0"
  unfolding is_f64_def by (rule exI [of _ 0], rule exI [of _ 0]) simp

lemma is_f64_int: "\<bar>j\<bar> < 2 ^ 53 \<Longrightarrow> is_f64 (of_int j)"
  unfolding is_f64_def by (rule exI [of _ j], rule exI [of _ 0]) simp

lemma is_f64_scaled: "\<bar>j\<bar> < 2 ^ 53 \<Longrightarrow> n \<le> 1074 \<Longrightarrow> is_f64 (of_int j / 2 ^ n)"
  unfolding is_f64_def
  by (rule exI [of _ j], rule exI [of _ "- int n"]) (simp add: power_int_minus field_simps)

lemma f64_round_lower: "is_f64 r \<Longrightarrow> r \<le> v \<Longrightarrow> r \<le> f64_round v"
proof -
  assume r: "is_f64 r" and le: "r \<le> v"
  consider "0 < v" | "v = 0" | "v < 0" by linarith
  then show ?thesis
  proof cases
    case 1
    then show ?thesis using r le by (rule f64_round_lower_pos)
  next
    case 2
    then show ?thesis using le by (simp add: f64_round_def)
  next
    case 3
    have "f64_round (- v) \<le> - r"
      using 3 r le by (intro f64_round_upper_pos) (simp_all add: is_f64_minus)
    then show ?thesis by (simp add: f64_round_minus)
  qed
qed

lemma f64_round_upper: "is_f64 r \<Longrightarrow> v \<le> r \<Longrightarrow> f64_round v \<le> r"
  using f64_round_lower [of "- r" "- v"] by (simp add: is_f64_minus f64_round_minus)

lemma f64_round_exact: "is_f64 r \<Longrightarrow> f64_round r = r"
  using f64_round_lower [of r r] f64_round_upper [of r r] by simp

lemma f64_exponent_eval:
  assumes "2 powi e \<le> \<bar>v\<bar>" and "\<bar>v\<bar> < 2 powi (e + 1)"
  shows "f64_exponent v = max e (- 1022)"
  using floor_log2_eq [OF assms] by (simp add: f64_exponent_def)

lemma f64_round_eval:
  assumes "2 powi e \<le> \<bar>v\<bar>" and "\<bar>v\<bar> < 2 powi (e + 1)" and "- 1022 \<le> e"
  shows "f64_round v =
           sgn v * (of_int (round_half_even (\<bar>v\<bar> / 2 powi (e - 52))) * 2 powi (e - 52))"
proof -
  have "(0::real) < 2 powi e"
    by simp
  then have "0 < \<bar>v\<bar>"
    using assms(1) by linarith
  then have "v \<noteq> 0"
    by auto
  moreover have "f64_ulp v = 2 powi (e - 52)"
    using f64_exponent_eval [OF assms(1,2)] assms(3) by (simp add: f64_ulp_def)
  ultimately show ?thesis by (simp add: f64_round_def)
qed

lemma fl_not_NaN: "fl v \<noteq> NaN"
  by (simp add: fl_def Let_def)

lemma f64_MAX_big: "2 ^ 62 \<le> f64_MAX"
  by (simp add: f64_MAX_def)

lemma f64_MAX_lt: "f64_MAX < 2 ^ 1024"
  by (simp add: f64_MAX_def)

lemma fl_FinI: "f64_round v = r \<Longrightarrow> - f64_MAX \<le> r \<Longrightarrow> r \<le> f64_MAX \<Longrightarrow> fl v = Fin r"
  by (auto simp add: fl_def Let_def)

lemma fl_between:
  assumes "is_f64 lo" and "is_f64 hi" and "- (2 ^ 62) \<le> lo" and "hi \<le> 2 ^ 62"
    and "lo \<le> v" and "v \<le> hi"
  shows "\<exists>r. fl v = Fin r \<and> lo \<le> r \<and> r \<le> hi"
proof -
  have l: "lo \<le> f64_round v"
    using assms(1,5) by (rule f64_round_lower)
  have h: "f64_round v \<le> hi"
    using assms(2,6) by (rule f64_round_upper)
  have "fl v = Fin (f64_round v)"
    using l h assms(3,4) f64_MAX_big by (intro fl_FinI) simp_all
  with l h show ?thesis by blast
qed

lemma fl_exact: "is_f64 r \<Longrightarrow> \<bar>r\<bar> \<le> 2 ^ 62 \<Longrightarrow> fl r = Fin r"
  using f64_MAX_big by (intro fl_FinI) (simp_all add: f64_round_exact)

lemma fl_zero: "fl 0 = Fin 0"
  by (rule fl_exact) (simp_all add: is_f64_zero)

lemma fl_int: "\<bar>j\<bar> < 2 ^ 53 \<Longrightarrow> fl (of_int j) = Fin (of_int j)"
proof -
  assume j: "\<bar>j\<bar> < 2 ^ 53"
  then have "\<bar>of_int j :: real\<bar> < 2 ^ 53"
    by (metis of_int_abs of_int_less_iff of_int_numeral of_int_power)
  then have "\<bar>of_int j :: real\<bar> \<le> 2 ^ 62"
    by simp
  with j show ?thesis
    by (intro fl_exact is_f64_int)
qed

lemma fl_035: "fl 0.35 = Fin (6305039478318694 / 2 ^ 54)"
proof -
  have "f64_round 0.35 = 6305039478318694 / 2 ^ 54"
    using f64_round_eval [of "- 2" "0.35"]
    by (simp add: round_half_even_def power_int_minus)
  then show ?thesis
    using f64_MAX_big by (intro fl_FinI) simp_all
qed

lemma fl_045: "fl 0.45 = Fin (8106479329266893 / 2 ^ 54)"
proof -
  have "f64_round 0.45 = 8106479329266893 / 2 ^ 54"
    using f64_round_eval [of "- 2" "0.45"]
    by (simp add: round_half_even_def power_int_minus)
  then show ?thesis
    using f64_MAX_big by (intro fl_FinI) simp_all
qed

lemma fl_02: "fl 0.2 = Fin (7205759403792794 / 2 ^ 55)"
proof -
  have "f64_round 0.2 = 7205759403792794 / 2 ^ 55"
    using f64_round_eval [of "- 3" "0.2"]
    by (simp add: round_half_even_def power_int_minus)
  then show ?thesis
    using f64_MAX_big by (intro fl_FinI) simp_all
qed

lemma fl_03: "fl 0.3 = Fin (5404319552844595 / 2 ^ 54)"
proof -
  have "f64_round 0.3 = 5404319552844595 / 2 ^ 54"
    using f64_round_eval [of "- 2" "0.3"]
    by (simp add: round_half_even_def power_int_minus)
  then show ?thesis
    using f64_MAX_big by (intro fl_FinI) simp_all
qed

lemma fl_005: "fl 0.05 = Fin (7205759403792794 / 2 ^ 57)"
proof -
  have "f64_round 0.05 = 7205759403792794 / 2 ^ 57"
    using f64_round_eval [of "- 5" "0.05"]
    by (simp add: round_half_even_def power_int_minus)
  then show ?thesis
    using f64_MAX_big by (intro fl_FinI) simp_all
qed

lemma fl_055_sum: "fl (6305039478318694 / 2 ^ 54 + 7205759403792794 / 2 ^ 55)
                     = Fin (4953959590107546 / 2 ^ 53)"
proof -
  have "f64_round (6305039478318694 / 2 ^ 54 + 7205759403792794 / 2 ^ 55)
          = 4953959590107546 / 2 ^ 53"
    using f64_round_eval [of "- 1" "6305039478318694 / 2 ^ 54 + 7205759403792794 / 2 ^ 55"]
    by (simp add: round_half_even_def power_int_minus)
  then show ?thesis
    using f64_MAX_big by (intro fl_FinI) simp_all
qed

lemma f64_round_le_one:
  assumes "v \<le> 1 + 1 / 2 ^ 54"
  shows "f64_round v \<le> 1"
proof (cases "v \<le> 1")
  case True
  have "is_f64 1"
    using is_f64_int [of 1] by simp
  then show ?thesis using True by (rule f64_round_upper)
next
  case False
  then have v1: "1 < v" by simp
  have fr: "f64_round v = of_int (round_half_even (v * 2 ^ 52)) / 2 ^ 52"
    using f64_round_eval [of 0 v] v1 assms
    by (simp add: power_int_minus field_simps)
  have lo: "(2::real) ^ 52 < v * 2 ^ 52"
    using v1 by simp
  have hi: "v * 2 ^ 52 \<le> 2 ^ 52 + 1 / 4"
    using assms by simp
  have fl: "\<lfloor>v * 2 ^ 52\<rfloor> = 2 ^ 52"
    using lo hi by (intro floor_unique) simp_all
  have "round_half_even (v * 2 ^ 52) = 2 ^ 52"
    unfolding round_half_even_def Let_def fl using hi by simp
  then show ?thesis by (simp add: fr)
qed

section \<open>Arithmetic of numbers\<close>

lemma is_f64_1: "is_f64 1"
  using is_f64_int [of 1] by simp

lemma is_f64_c035: "is_f64 (6305039478318694 / 2 ^ 54)"
  using is_f64_scaled [of 6305039478318694 54] by simp

lemma is_f64_c045: "is_f64 (8106479329266893 / 2 ^ 54)"
  using is_f64_scaled [of 8106479329266893 54] by simp

lemma is_f64_c02: "is_f64 (7205759403792794 / 2 ^ 55)"
  using is_f64_scaled [of 7205759403792794 55] by simp

lemma is_f64_c08: "is_f64 (7205759403792794 / 2 ^ 53)"
  using is_f64_scaled [of 7205759403792794 53] by simp

lemma is_f64_c035_less_c03: "is_f64 (900719925474099 / 2 ^ 54)"
  using is_f64_scaled [of 900719925474099 54] by simp

lemma num_add_NaN_right: "num_add a NaN = NaN"
  by (cases a) simp_all

lemma num_mul_NaN_left: "num_mul NaN b = NaN"
  by simp

lemma clamp_f64_NaN: "clamp_f64 NaN lo hi = NaN"
  by (cases hi; cases lo) (simp_all add: clamp_f64_def)

lemma clamp_f64_unit:
  "a \<noteq> NaN \<Longrightarrow> \<exists>u. clamp_f64 a (Fin 0) (Fin 1) = Fin u \<and> 0 \<le> u \<and> u \<le> 1"
  by (cases a) (auto simp add: clamp_f64_def)

lemma clamp_f64_id: "0 \<le> q \<Longrightarrow> q \<le> 1 \<Longrightarrow> clamp_f64 (Fin q) (Fin 0) (Fin 1) = Fin q"
  by (auto simp add: clamp_f64_def)

lemma clamp_f64_low: "t \<le> 0 \<Longrightarrow> clamp_f64 (Fin t) (Fin 0) (Fin 1) = Fin 0"
  by (auto simp add: clamp_f64_def)

lemma clamp_f64_high: "1 \<le> t \<Longrightarrow> clamp_f64 (Fin t) (Fin 0) (Fin 1) = Fin 1"
  by (auto simp add: clamp_f64_def)

lemma num_div_pos_not_NaN: "a \<noteq> NaN \<Longrightarrow> 0 < b \<Longrightarrow> num_div a (Fin b) \<noteq> NaN"
  by (cases a) (simp_all add: fl_not_NaN)

lemma Math_hypot_f64_FinD:
  "Math_hypot_f64 a b = Fin c \<Longrightarrow> \<exists>u v. a = Fin u \<and> b = Fin v"
  by (cases a; cases b) simp_all

lemma num_sub_FinD: "num_sub (Fin a) (Fin b) = fl (a - b)"
  by simp

lemma Math_hypot_f64_axis:
  "Math_hypot_f64 (Fin a) (Fin 0) = fl \<bar>a\<bar>"
  "Math_hypot_f64 (Fin 0) (Fin b) = fl \<bar>b\<bar>"
  by simp_all

lemma distance_f64_self: "distance_f64 a a = Fin 0"
  by (simp add: distance_f64_def fl_zero)

lemma fl_overflow: "fl (2 ^ 1024) = PInf" "fl (- (2 ^ 1024)) = NInf"
proof -
  have "is_f64 (2 ^ 1024)"
    unfolding is_f64_def by (rule exI [of _ 1], rule exI [of _ 1024]) simp
  then have r: "f64_round (2 ^ 1024) = 2 ^ 1024"
    by (rule f64_round_exact)
  show "fl (2 ^ 1024) = PInf"
    using f64_MAX_lt by (simp only: fl_def r Let_def if_True)
  have "f64_round (- (2 ^ 1024)) = - (2 ^ 1024)"
    by (simp only: f64_round_minus r)
  moreover have "\<not> f64_MAX < - (2 ^ 1024)" "- (2 ^ 1024) < - f64_MAX"
    using f64_MAX_lt f64_MAX_big by simp_all
  ultimately show "fl (- (2 ^ 1024)) = NInf"
    by (simp only: fl_def Let_def if_True if_False)
qed

lemma huge_apart:
  "num_sub (Fin f64_huge) (Fin (- f64_huge)) = PInf"
  "num_sub (Fin (- f64_huge)) (Fin f64_huge) = NInf"
proof -
  have "f64_huge - - f64_huge = 2 ^ 1024" "- f64_huge - f64_huge = - (2 ^ 1024)"
    by (simp_all add: f64_huge_def)
  then show "num_sub (Fin f64_huge) (Fin (- f64_huge)) = PInf"
    "num_sub (Fin (- f64_huge)) (Fin f64_huge) = NInf"
    by (simp_all only: num_sub.simps fl_overflow)
qed

lemma fl_small_ints:
  "fl 1 = Fin 1" "fl 10 = Fin 10" "fl 50 = Fin 50" "fl (- 50) = Fin (- 50)"
  "fl 200 = Fin 200" "fl (- 200) = Fin (- 200)" "fl 400 = Fin 400" "fl (- 400) = Fin (- 400)"
  "fl (- 10) = Fin (- 10)"
  using fl_int [of 1] fl_int [of 10] fl_int [of 50] fl_int [of "- 50"] fl_int [of 200]
    fl_int [of "- 200"] fl_int [of 400] fl_int [of "- 400"] fl_int [of "- 10"]
  by simp_all

lemma calculatePd_f64_fields:
  "pupilPixelDistance_f64 (calculatePd_f64 mks) = distance_f64 (mks LeftPupil) (mks RightPupil)"
  "cardPixelWidth_f64 (calculatePd_f64 mks) = distance_f64 (mks LeftCard) (mks RightCard)"
  "mmPerPixel_f64 (calculatePd_f64 mks) =
     (if num_gt (distance_f64 (mks LeftCard) (mks RightCard)) (Fin 0)
      then num_div CARD_WIDTH_MM_f64 (distance_f64 (mks LeftCard) (mks RightCard)) else Fin 0)"
  "pdMm_f64 (calculatePd_f64 mks) =
     num_mul (pupilPixelDistance_f64 (calculatePd_f64 mks)) (mmPerPixel_f64 (calculatePd_f64 mks))"
  "pdMmRounded_f64 (calculatePd_f64 mks) =
     num_div (Math_round_f64 (num_mul (pdMm_f64 (calculatePd_f64 mks)) (Fin 2))) (Fin 2)"
  "issues_f64 (calculatePd_f64 mks) =
     (if num_lt (distance_f64 (mks LeftCard) (mks RightCard)) MIN_CARD_PIXEL_WIDTH_f64
      then [CardTooClose_f64] else [])
     @ (if num_lt (pdMm_f64 (calculatePd_f64 mks)) MIN_PD_MM_f64
           \<or> num_gt (pdMm_f64 (calculatePd_f64 mks)) MAX_PD_MM_f64
        then [PdOutOfRange_f64 (pdMm_f64 (calculatePd_f64 mks))] else [])
     @ (if num_gt (num_div (Math_abs_f64 (num_sub (Fin (y (mks LeftCard)))
                                                  (Fin (y (mks RightCard)))))
                           (Math_max_f64 (distance_f64 (mks LeftCard) (mks RightCard)) (Fin 1)))
                  (fl 0.2)
        then [CardTilted_f64] else [])"
  "valid_f64 (calculatePd_f64 mks) = (issues_f64 (calculatePd_f64 mks) = [])"
  "qualityMessage_f64 (calculatePd_f64 mks) =
     (if num_ge (confidence_f64 (calculatePd_f64 mks)) (Fin 0.75)
         \<and> issues_f64 (calculatePd_f64 mks) = []
      then ''Good quality capture. Manual marker check still recommended.''
      else if num_ge (confidence_f64 (calculatePd_f64 mks)) (Fin 0.5)
      then ''Moderate quality. Consider another capture to confirm.''
      else ''Low confidence - check marker placement and retake.'')"
  by (simp_all add: calculatePd_f64_def Let_def)

lemma confidence_f64_unfold:
  "confidence_f64 (calculatePd_f64 mks) =
     clamp_f64 (if num_lt (pdMm_f64 (calculatePd_f64 mks)) MIN_PD_MM_f64
                   \<or> num_gt (pdMm_f64 (calculatePd_f64 mks)) MAX_PD_MM_f64
                then num_sub (confidence0_f64 mks) (fl 0.3) else confidence0_f64 mks)
               (Fin 0) (Fin 1)"
  by (simp add: calculatePd_f64_def confidence0_f64_def Let_def)

section \<open>Confidence in double arithmetic\<close>

lemma unit_complement:
  assumes "0 \<le> u" and "u \<le> 1"
  shows "\<exists>w. num_sub (Fin 1) (Fin u) = Fin w \<and> 0 \<le> w \<and> w \<le> 1"
  using fl_between [of 0 1 "1 - u"] assms is_f64_zero is_f64_1 by simp

lemma scaled_045:
  assumes "0 \<le> s" and "s \<le> 1"
  shows "\<exists>t. num_mul (Fin s) (fl 0.45) = Fin t \<and> 0 \<le> t \<and> t \<le> 8106479329266893 / 2 ^ 54"
proof -
  have "0 \<le> s * (8106479329266893 / 2 ^ 54)" "s * (8106479329266893 / 2 ^ 54) \<le> 8106479329266893 / 2 ^ 54"
    using assms by (simp_all add: mult_left_le_one_le)
  then show ?thesis
    using fl_between [of 0 "8106479329266893 / 2 ^ 54" "s * (8106479329266893 / 2 ^ 54)"]
      is_f64_zero is_f64_c045
    unfolding fl_045 by simp
qed

lemma scaled_02:
  assumes "0 \<le> w" and "w \<le> 1"
  shows "\<exists>t. num_mul (Fin w) (fl 0.2) = Fin t \<and> 0 \<le> t \<and> t \<le> 7205759403792794 / 2 ^ 55"
proof -
  have "0 \<le> w * (7205759403792794 / 2 ^ 55)" "w * (7205759403792794 / 2 ^ 55) \<le> 7205759403792794 / 2 ^ 55"
    using assms by (simp_all add: mult_left_le_one_le)
  then show ?thesis
    using fl_between [of 0 "7205759403792794 / 2 ^ 55" "w * (7205759403792794 / 2 ^ 55)"]
      is_f64_zero is_f64_c02
    unfolding fl_02 by simp
qed

lemma base_plus_scale:
  assumes "0 \<le> t" and "t \<le> 8106479329266893 / 2 ^ 54"
  shows "\<exists>a. num_add (fl 0.35) (Fin t) = Fin a
             \<and> 6305039478318694 / 2 ^ 54 \<le> a \<and> a \<le> 7205759403792794 / 2 ^ 53"
  using fl_between [of "6305039478318694 / 2 ^ 54" "7205759403792794 / 2 ^ 53"
          "6305039478318694 / 2 ^ 54 + t"]
    assms is_f64_c035 is_f64_c08
  unfolding fl_035 by simp

lemma plus_tilt:
  assumes "6305039478318694 / 2 ^ 54 \<le> a" and "a \<le> 7205759403792794 / 2 ^ 53"
    and "0 \<le> t" and "t \<le> 7205759403792794 / 2 ^ 55"
  shows "\<exists>p. num_add (Fin a) (Fin t) = Fin p \<and> 6305039478318694 / 2 ^ 54 \<le> p \<and> p \<le> 1"
proof -
  have lo: "6305039478318694 / 2 ^ 54 \<le> f64_round (a + t)"
    using assms(1,3) by (intro f64_round_lower is_f64_c035) simp
  have hi: "f64_round (a + t) \<le> 1"
    using assms(2,4) by (intro f64_round_le_one) simp
  have "fl (a + t) = Fin (f64_round (a + t))"
    using lo hi f64_MAX_big by (intro fl_FinI) simp_all
  with lo hi show ?thesis by simp
qed

lemma minus_penalty:
  assumes "6305039478318694 / 2 ^ 54 \<le> p" and "p \<le> 1"
  shows "\<exists>q. num_sub (Fin p) (fl 0.3) = Fin q \<and> 900719925474099 / 2 ^ 54 \<le> q \<and> q \<le> 1"
  using fl_between [of "900719925474099 / 2 ^ 54" 1 "p - 5404319552844595 / 2 ^ 54"]
    assms is_f64_c035_less_c03 is_f64_1
  unfolding fl_03 by simp

lemma confidence0_f64_bounds:
  assumes cw: "distance_f64 (mks LeftCard) (mks RightCard) = Fin c"
  shows "\<exists>p. confidence0_f64 mks = Fin p \<and> 6305039478318694 / 2 ^ 54 \<le> p \<and> p \<le> 1"
proof -
  obtain dx dy where d: "num_sub (Fin (x (mks LeftCard))) (Fin (x (mks RightCard))) = Fin dx"
    "num_sub (Fin (y (mks LeftCard))) (Fin (y (mks RightCard))) = Fin dy"
    using Math_hypot_f64_FinD [OF cw [unfolded distance_f64_def]] by blast
  have "num_div (num_sub (Fin c) MIN_CARD_PIXEL_WIDTH_f64) (Fin 220) \<noteq> NaN"
    by (intro num_div_pos_not_NaN) (simp_all add: MIN_CARD_PIXEL_WIDTH_f64_def fl_not_NaN)
  then obtain s where s: "clamp_f64 (num_div (num_sub (Fin c) MIN_CARD_PIXEL_WIDTH_f64)
      (Fin 220)) (Fin 0) (Fin 1) = Fin s" "0 \<le> s" "s \<le> 1"
    using clamp_f64_unit by blast
  have m1: "Math_max_f64 (Fin c) (Fin 1) = Fin (max c 1)"
    by (simp add: max_def)
  have "num_div (Fin \<bar>dy\<bar>) (Fin (max c 1)) \<noteq> NaN"
    by (intro num_div_pos_not_NaN) (simp_all add: max_def)
  then have "num_div (num_div (Fin \<bar>dy\<bar>) (Fin (max c 1))) (fl 0.2) \<noteq> NaN"
    unfolding fl_02 by (intro num_div_pos_not_NaN) simp_all
  then obtain u where u: "clamp_f64 (num_div (num_div (Fin \<bar>dy\<bar>) (Fin (max c 1))) (fl 0.2))
      (Fin 0) (Fin 1) = Fin u" "0 \<le> u" "u \<le> 1"
    using clamp_f64_unit by blast
  obtain w where w: "num_sub (Fin 1) (Fin u) = Fin w" "0 \<le> w" "w \<le> 1"
    using unit_complement [OF u(2,3)] by blast
  obtain t1 where t1: "num_mul (Fin s) (fl 0.45) = Fin t1" "0 \<le> t1"
    "t1 \<le> 8106479329266893 / 2 ^ 54"
    using scaled_045 [OF s(2,3)] by blast
  obtain t2 where t2: "num_mul (Fin w) (fl 0.2) = Fin t2" "0 \<le> t2"
    "t2 \<le> 7205759403792794 / 2 ^ 55"
    using scaled_02 [OF w(2,3)] by blast
  obtain a where a: "num_add (fl 0.35) (Fin t1) = Fin a" "6305039478318694 / 2 ^ 54 \<le> a"
    "a \<le> 7205759403792794 / 2 ^ 53"
    using base_plus_scale [OF t1(2,3)] by blast
  obtain p where p: "num_add (Fin a) (Fin t2) = Fin p" "6305039478318694 / 2 ^ 54 \<le> p" "p \<le> 1"
    using plus_tilt [OF a(2,3) t2(2,3)] by blast
  have "confidence0_f64 mks = Fin p"
    unfolding confidence0_f64_def Let_def cw d(2) Math_abs_f64.simps m1 s(1) u(1) w(1) t1(1) a(1)
      t2(1) p(1) ..
  with p(2,3) show ?thesis by blast
qed

lemma scale_term_narrow:
  assumes "0 \<le> c" and "c \<le> 90"
  shows "clamp_f64 (num_div (num_sub (Fin c) MIN_CARD_PIXEL_WIDTH_f64) (Fin 220)) (Fin 0) (Fin 1)
           = Fin 0"
proof -
  have i: "is_f64 (- 90)" "is_f64 (- 1)"
    using is_f64_int [of "- 90"] is_f64_int [of "- 1"] by simp_all
  obtain t where t: "fl (c - 90) = Fin t" "- 90 \<le> t" "t \<le> 0"
    using fl_between [of "- 90" 0 "c - 90"] assms i is_f64_zero by auto
  obtain u where u: "fl (t / 220) = Fin u" "u \<le> 0"
    using fl_between [of "- 1" 0 "t / 220"] t(2,3) i is_f64_zero by auto
  show ?thesis
    using u(2) by (simp add: MIN_CARD_PIXEL_WIDTH_f64_def t(1) u(1) clamp_f64_low)
qed

lemma card_width_quotient:
  assumes "43 \<le> c" and "c \<le> 85"
  shows "\<exists>m. num_div CARD_WIDTH_MM_f64 (Fin c) = Fin m \<and> 1 \<le> m \<and> m \<le> 2"
proof -
  have i: "is_f64 85" "is_f64 86" "is_f64 1" "is_f64 2"
    using is_f64_int [of 85] is_f64_int [of 86] is_f64_int [of 1] is_f64_int [of 2]
    by simp_all
  obtain k where k: "fl 85.6 = Fin k" "85 \<le> k" "k \<le> 86"
    using fl_between [of 85 86 "85.6"] i by auto
  have "1 \<le> k / c" "k / c \<le> 2"
    using assms k(2,3) by (simp_all add: field_simps)
  then obtain m where m: "fl (k / c) = Fin m" "1 \<le> m" "m \<le> 2"
    using fl_between [of 1 2 "k / c"] i by auto
  show ?thesis
    unfolding CARD_WIDTH_MM_f64_def k(1) using assms(1) m by simp
qed

lemma pdMm_f64_tilted: "\<exists>v. pdMm_f64 (calculatePd_f64 tilted_card_markers) = Fin v \<and> v \<le> 20"
proof -
  have cw: "distance_f64 (tilted_card_markers LeftCard) (tilted_card_markers RightCard) = Fin 50"
    by (simp add: tilted_card_markers_def distance_f64_def fl_zero fl_small_ints)
  have pd: "distance_f64 (tilted_card_markers LeftPupil) (tilted_card_markers RightPupil) = Fin 10"
    by (simp add: tilted_card_markers_def distance_f64_def fl_zero fl_small_ints)
  obtain m where m: "num_div CARD_WIDTH_MM_f64 (Fin 50) = Fin m" "1 \<le> m" "m \<le> 2"
    using card_width_quotient [of 50] by auto
  have i: "is_f64 10" "is_f64 20"
    using is_f64_int [of 10] is_f64_int [of 20] by simp_all
  obtain v where v: "fl (10 * m) = Fin v" "v \<le> 20"
    using fl_between [of 10 20 "10 * m"] m(2,3) i by auto
  have "pdMm_f64 (calculatePd_f64 tilted_card_markers) = Fin v"
    by (simp add: calculatePd_f64_fields(1,3,4) cw pd num_gt_def m(1) v(1))
  with v(2) show ?thesis by blast
qed

lemma confidence0_f64_tilted:
  "confidence0_f64 tilted_card_markers = Fin (6305039478318694 / 2 ^ 54)"
proof -
  have cw: "distance_f64 (tilted_card_markers LeftCard) (tilted_card_markers RightCard) = Fin 50"
    by (simp add: tilted_card_markers_def distance_f64_def fl_zero fl_small_ints)
  have dy: "num_sub (Fin (y (tilted_card_markers LeftCard)))
              (Fin (y (tilted_card_markers RightCard))) = Fin (- 50)"
    by (simp add: tilted_card_markers_def fl_small_ints)
  have sc: "clamp_f64 (num_div (num_sub (Fin 50) MIN_CARD_PIXEL_WIDTH_f64) (Fin 220))
              (Fin 0) (Fin 1) = Fin 0"
    by (rule scale_term_narrow) simp_all
  have ratio: "num_div (Math_abs_f64 (Fin (- 50))) (Math_max_f64 (Fin 50) (Fin 1)) = Fin 1"
    by (simp add: fl_small_ints)
  have i: "is_f64 1" "is_f64 8"
    using is_f64_int [of 1] is_f64_int [of 8] by simp_all
  obtain t where t: "fl (1 / (7205759403792794 / 2 ^ 55)) = Fin t" "1 \<le> t"
    using fl_between [of 1 8 "1 / (7205759403792794 / 2 ^ 55)"] i by auto
  have tq: "clamp_f64 (num_div (Fin 1) (fl 0.2)) (Fin 0) (Fin 1) = Fin 1"
    unfolding fl_02 using t by (simp add: clamp_f64_high)
  have tc: "num_sub (Fin 1) (Fin 1) = Fin 0"
    by (simp add: fl_zero)
  have t1: "num_mul (Fin 0) (fl 0.45) = Fin 0"
    unfolding fl_045 by (simp add: fl_zero)
  have a: "num_add (fl 0.35) (Fin 0) = Fin (6305039478318694 / 2 ^ 54)"
    unfolding fl_035 using fl_exact [OF is_f64_c035] by simp
  have t2: "num_mul (Fin 0) (fl 0.2) = Fin 0"
    unfolding fl_02 by (simp add: fl_zero)
  have p: "num_add (Fin (6305039478318694 / 2 ^ 54)) (Fin 0) = Fin (6305039478318694 / 2 ^ 54)"
    using fl_exact [OF is_f64_c035] by simp
  show ?thesis
    unfolding confidence0_f64_def Let_def cw dy sc ratio tq tc t1 a t2 p ..
qed

lemma confidence0_f64_far_card: "confidence0_f64 far_card_markers = NaN"
proof -
  have pts: "x (far_card_markers LeftCard) = 0" "x (far_card_markers RightCard) = 0"
    "y (far_card_markers LeftCard) = f64_huge" "y (far_card_markers RightCard) = - f64_huge"
    by (simp_all add: far_card_markers_def)
  have cw: "distance_f64 (far_card_markers LeftCard) (far_card_markers RightCard) = PInf"
    unfolding distance_f64_def pts huge_apart by (simp add: fl_zero)
  have ratio: "num_div (Math_abs_f64 PInf) (Math_max_f64 PInf (Fin 1)) = NaN"
    by simp
  have tq: "clamp_f64 (num_div NaN (fl 0.2)) (Fin 0) (Fin 1) = NaN"
    by (simp add: clamp_f64_NaN)
  have tc: "num_sub (Fin 1) NaN = NaN"
    by simp
  show ?thesis
    unfolding confidence0_f64_def Let_def cw pts huge_apart ratio tq tc num_mul_NaN_left
      num_add_NaN_right ..
qed

text \<open>
  Claim C9, amended. For every marker map whose card width is finite (the card
  coordinates do not overflow), the confidence before the penalty is a double between
  the double \<open>0.35\<close> and 1; the returned confidence is that value, less the double
  \<open>0.3\<close> when the PD is out of range, clamped to \<open>[0,1]\<close>; and it lies between
  \<open>0.35 - 0.3\<close> as doubles subtract them (\<open>0.04999999999999999\<close>, just below 0.05) and
  1. In particular it is never 0.
\<close>

theorem calculatePd_f64_confidence_range:
  assumes "distance_f64 (mks LeftCard) (mks RightCard) = Fin c"
  shows "\<exists>p q. confidence0_f64 mks = Fin p
           \<and> fl 0.35 = Fin (6305039478318694 / 2 ^ 54)
           \<and> 6305039478318694 / 2 ^ 54 \<le> p \<and> p \<le> 1
           \<and> confidence_f64 (calculatePd_f64 mks) =
               clamp_f64 (if num_lt (pdMm_f64 (calculatePd_f64 mks)) MIN_PD_MM_f64
                             \<or> num_gt (pdMm_f64 (calculatePd_f64 mks)) MAX_PD_MM_f64
                          then num_sub (Fin p) (fl 0.3) else Fin p)
                         (Fin 0) (Fin 1)
           \<and> confidence_f64 (calculatePd_f64 mks) = Fin q
           \<and> num_sub (fl 0.35) (fl 0.3) = Fin (900719925474099 / 2 ^ 54)
           \<and> 900719925474099 / 2 ^ 54 \<le> q \<and> q \<le> 1 \<and> q \<noteq> 0"
proof -
  obtain p where p: "confidence0_f64 mks = Fin p" "6305039478318694 / 2 ^ 54 \<le> p" "p \<le> 1"
    using confidence0_f64_bounds [OF assms] by blast
  obtain q' where q': "num_sub (Fin p) (fl 0.3) = Fin q'" "900719925474099 / 2 ^ 54 \<le> q'"
    "q' \<le> 1"
    using minus_penalty [OF p(2,3)] by blast
  define q where "q = (if num_lt (pdMm_f64 (calculatePd_f64 mks)) MIN_PD_MM_f64
                             \<or> num_gt (pdMm_f64 (calculatePd_f64 mks)) MAX_PD_MM_f64
                       then q' else p)"
  have qb: "900719925474099 / 2 ^ 54 \<le> q" "q \<le> 1"
    using p(2,3) q'(2,3) by (auto simp add: q_def)
  then have q0: "0 \<le> q" "q \<noteq> 0"
    by auto
  have form: "confidence_f64 (calculatePd_f64 mks) =
               clamp_f64 (if num_lt (pdMm_f64 (calculatePd_f64 mks)) MIN_PD_MM_f64
                             \<or> num_gt (pdMm_f64 (calculatePd_f64 mks)) MAX_PD_MM_f64
                          then num_sub (Fin p) (fl 0.3) else Fin p)
                         (Fin 0) (Fin 1)"
    by (simp only: confidence_f64_unfold p(1))
  have "confidence_f64 (calculatePd_f64 mks) = clamp_f64 (Fin q) (Fin 0) (Fin 1)"
    unfolding form q_def q'(1) by simp
  then have val: "confidence_f64 (calculatePd_f64 mks) = Fin q"
    using q0(1) qb(2) by (simp add: clamp_f64_id)
  have lit: "num_sub (fl 0.35) (fl 0.3) = Fin (900719925474099 / 2 ^ 54)"
    using fl_exact [OF is_f64_c035_less_c03] unfolding fl_035 fl_03 by simp
  show ?thesis
    using p form val lit qb q0(2) fl_035 by blast
qed

theorem calculatePd_f64_confidence_range_witness:
  "distance_f64 (scenario_markers LeftCard) (scenario_markers RightCard) = Fin 400
   \<and> (\<exists>q. confidence_f64 (calculatePd_f64 scenario_markers) = Fin q
          \<and> 900719925474099 / 2 ^ 54 \<le> q \<and> q \<le> 1 \<and> q \<noteq> 0)"
proof -
  have d: "distance_f64 (scenario_markers LeftCard) (scenario_markers RightCard) = Fin 400"
    by (simp add: scenario_markers_def distance_f64_def fl_zero fl_small_ints)
  show ?thesis
    using d calculatePd_f64_confidence_range [OF d] by blast
qed

text \<open>
  Claim C9 as stated fails: with a vertical card line of 50 pixels and pupils 10 pixels
  apart the confidence is \<open>0.35 - 0.3\<close> in doubles, which is below 0.05 (as a real and
  as the double \<open>0.05\<close>). With card markers so far apart that their distance
  overflows, the confidence is \<open>NaN\<close>.
\<close>

theorem calculatePd_f64_confidence_counterexample:
  "confidence_f64 (calculatePd_f64 tilted_card_markers) = Fin (900719925474099 / 2 ^ 54)
   \<and> (900719925474099 / 2 ^ 54 :: real) < 0.05
   \<and> num_lt (confidence_f64 (calculatePd_f64 tilted_card_markers)) (fl 0.05)
   \<and> confidence_f64 (calculatePd_f64 far_card_markers) = NaN"
proof -
  obtain v where v: "pdMm_f64 (calculatePd_f64 tilted_card_markers) = Fin v" "v \<le> 20"
    using pdMm_f64_tilted by blast
  have out: "num_lt (pdMm_f64 (calculatePd_f64 tilted_card_markers)) MIN_PD_MM_f64"
    using v(2) by (simp add: v(1) MIN_PD_MM_f64_def)
  have pen: "num_sub (Fin (6305039478318694 / 2 ^ 54)) (fl 0.3) = Fin (900719925474099 / 2 ^ 54)"
    unfolding fl_03 using fl_exact [OF is_f64_c035_less_c03] by simp
  have "confidence_f64 (calculatePd_f64 tilted_card_markers)
          = clamp_f64 (num_sub (confidence0_f64 tilted_card_markers) (fl 0.3)) (Fin 0) (Fin 1)"
    by (simp only: confidence_f64_unfold out simp_thms if_True)
  also have "\<dots> = clamp_f64 (Fin (900719925474099 / 2 ^ 54)) (Fin 0) (Fin 1)"
    by (simp only: confidence0_f64_tilted pen)
  also have "\<dots> = Fin (900719925474099 / 2 ^ 54)"
    by (rule clamp_f64_id) simp_all
  finally have c1: "confidence_f64 (calculatePd_f64 tilted_card_markers)
                      = Fin (900719925474099 / 2 ^ 54)" .
  have c2: "(900719925474099 / 2 ^ 54 :: real) < 0.05"
    by simp
  have c3: "num_lt (confidence_f64 (calculatePd_f64 tilted_card_markers)) (fl 0.05)"
    unfolding c1 fl_005 by simp
  have "confidence_f64 (calculatePd_f64 far_card_markers)
          = clamp_f64 (if num_lt (pdMm_f64 (calculatePd_f64 far_card_markers)) MIN_PD_MM_f64
                          \<or> num_gt (pdMm_f64 (calculatePd_f64 far_card_markers)) MAX_PD_MM_f64
                       then num_sub NaN (fl 0.3) else NaN) (Fin 0) (Fin 1)"
    by (simp only: confidence_f64_unfold confidence0_f64_far_card)
  then have c4: "confidence_f64 (calculatePd_f64 far_card_markers) = NaN"
    by (simp add: clamp_f64_NaN)
  show ?thesis
    using c1 c2 c3 c4 by blast
qed

section \<open>Degenerate scale: coincident card markers\<close>

lemma confidence0_f64_coincident:
  assumes "mks LeftCard = mks RightCard"
  shows "confidence0_f64 mks = Fin (4953959590107546 / 2 ^ 53)"
proof -
  have cw: "distance_f64 (mks LeftCard) (mks RightCard) = Fin 0"
    by (simp add: assms distance_f64_self)
  have dy: "num_sub (Fin (y (mks LeftCard))) (Fin (y (mks RightCard))) = Fin 0"
    by (simp add: assms fl_zero)
  have sc: "clamp_f64 (num_div (num_sub (Fin 0) MIN_CARD_PIXEL_WIDTH_f64) (Fin 220))
              (Fin 0) (Fin 1) = Fin 0"
    by (rule scale_term_narrow) simp_all
  have ratio: "num_div (Math_abs_f64 (Fin 0)) (Math_max_f64 (Fin 0) (Fin 1)) = Fin 0"
    by (simp add: fl_zero)
  have tq: "num_div (Fin 0) (fl 0.2) = Fin 0"
    unfolding fl_02 by (simp add: fl_zero)
  have tc: "num_sub (Fin 1) (clamp_f64 (Fin 0) (Fin 0) (Fin 1)) = Fin 1"
    using fl_exact [OF is_f64_1] by (simp add: clamp_f64_id)
  have t1: "num_mul (Fin 0) (fl 0.45) = Fin 0"
    unfolding fl_045 by (simp add: fl_zero)
  have a: "num_add (fl 0.35) (Fin 0) = Fin (6305039478318694 / 2 ^ 54)"
    unfolding fl_035 using fl_exact [OF is_f64_c035] by simp
  have t2: "num_mul (Fin 1) (fl 0.2) = Fin (7205759403792794 / 2 ^ 55)"
    unfolding fl_02 using fl_exact [OF is_f64_c02] by simp
  have p: "num_add (Fin (6305039478318694 / 2 ^ 54)) (Fin (7205759403792794 / 2 ^ 55))
             = Fin (4953959590107546 / 2 ^ 53)"
    by (simp only: num_add.simps fl_055_sum)
  show ?thesis
    unfolding confidence0_f64_def Let_def cw dy sc ratio tq tc t1 a t2 p ..
qed

lemma penalty_coincident:
  "num_sub (Fin (4953959590107546 / 2 ^ 53)) (fl 0.3) = Fin (4503599627370497 / 2 ^ 54)"
proof -
  have "is_f64 (4503599627370497 / 2 ^ 54)"
    using is_f64_scaled [of 4503599627370497 54] by simp
  then have "fl (4503599627370497 / 2 ^ 54) = Fin (4503599627370497 / 2 ^ 54)"
    by (rule fl_exact) simp
  then show ?thesis
    unfolding fl_03 by simp
qed

text \<open>
  Claim C1, amended. When \<open>leftCard\<close> and \<open>rightCard\<close> are the same point and the
  pupil distance is finite (the pupil coordinates do not overflow), the card width is
  0, the guard makes \<open>mmPerPixel\<close> 0 without dividing, \<open>pdMm\<close> and \<open>pdMmRounded\<close> are
  0, the issue list holds the too-close issue and the out-of-range issue (0 is below
  45), the result is not valid, and every numeric field is a finite number.
\<close>

theorem calculatePd_f64_coincident_card:
  assumes same: "mks LeftCard = mks RightCard"
    and finite: "distance_f64 (mks LeftPupil) (mks RightPupil) = Fin d"
  shows "pupilPixelDistance_f64 (calculatePd_f64 mks) = Fin d
     \<and> cardPixelWidth_f64 (calculatePd_f64 mks) = Fin 0
     \<and> mmPerPixel_f64 (calculatePd_f64 mks) = Fin 0
     \<and> pdMm_f64 (calculatePd_f64 mks) = Fin 0
     \<and> pdMmRounded_f64 (calculatePd_f64 mks) = Fin 0
     \<and> confidence_f64 (calculatePd_f64 mks) = Fin (4503599627370497 / 2 ^ 54)
     \<and> qualityMessage_f64 (calculatePd_f64 mks)
         = ''Low confidence - check marker placement and retake.''
     \<and> issues_f64 (calculatePd_f64 mks) = [CardTooClose_f64, PdOutOfRange_f64 (Fin 0)]
     \<and> valid_f64 (calculatePd_f64 mks) = False"
proof -
  let ?r = "calculatePd_f64 mks"
  have cw: "distance_f64 (mks LeftCard) (mks RightCard) = Fin 0"
    by (simp add: same distance_f64_self)
  have f1: "pupilPixelDistance_f64 ?r = Fin d"
    by (simp only: calculatePd_f64_fields finite)
  have f2: "cardPixelWidth_f64 ?r = Fin 0"
    by (simp only: calculatePd_f64_fields cw)
  have f3: "mmPerPixel_f64 ?r = Fin 0"
    by (simp add: calculatePd_f64_fields(3) cw num_gt_def)
  have f4: "pdMm_f64 ?r = Fin 0"
    by (simp add: calculatePd_f64_fields(4) f1 f3 fl_zero)
  have f5: "pdMmRounded_f64 ?r = Fin 0"
    by (simp add: calculatePd_f64_fields(5) f4 fl_zero)
  have out: "num_lt (pdMm_f64 ?r) MIN_PD_MM_f64"
    by (simp add: f4 MIN_PD_MM_f64_def)
  have "confidence_f64 ?r = clamp_f64 (num_sub (confidence0_f64 mks) (fl 0.3)) (Fin 0) (Fin 1)"
    by (simp only: confidence_f64_unfold out simp_thms if_True)
  also have "\<dots> = clamp_f64 (Fin (4503599627370497 / 2 ^ 54)) (Fin 0) (Fin 1)"
    by (simp only: confidence0_f64_coincident [OF same] penalty_coincident)
  also have "\<dots> = Fin (4503599627370497 / 2 ^ 54)"
    by (rule clamp_f64_id) simp_all
  finally have f6: "confidence_f64 ?r = Fin (4503599627370497 / 2 ^ 54)" .
  have dy: "num_sub (Fin (y (mks LeftCard))) (Fin (y (mks RightCard))) = Fin 0"
    by (simp add: same fl_zero)
  have tilt: "\<not> num_gt (num_div (Math_abs_f64 (Fin 0)) (Math_max_f64 (Fin 0) (Fin 1))) (fl 0.2)"
    unfolding fl_02 by (simp add: fl_zero num_gt_def)
  have f8: "issues_f64 ?r = [CardTooClose_f64, PdOutOfRange_f64 (Fin 0)]"
    unfolding calculatePd_f64_fields(6) cw dy
    using out tilt by (simp add: f4 MIN_CARD_PIXEL_WIDTH_f64_def)
  have f9: "valid_f64 ?r = False"
    by (simp add: calculatePd_f64_fields(7) f8)
  have f7: "qualityMessage_f64 ?r = ''Low confidence - check marker placement and retake.''"
    unfolding calculatePd_f64_fields(8) f6 f8 by simp
  show ?thesis
    using f1 f2 f3 f4 f5 f6 f7 f8 f9 by blast
qed

theorem calculatePd_f64_coincident_card_witness:
  "coincident_card_markers LeftCard = coincident_card_markers RightCard
   \<and> distance_f64 (coincident_card_markers LeftPupil) (coincident_card_markers RightPupil)
       = Fin 200
   \<and> pdMm_f64 (calculatePd_f64 coincident_card_markers) = Fin 0
   \<and> issues_f64 (calculatePd_f64 coincident_card_markers)
       = [CardTooClose_f64, PdOutOfRange_f64 (Fin 0)]"
proof -
  have same: "coincident_card_markers LeftCard = coincident_card_markers RightCard"
    by (simp add: coincident_card_markers_def)
  have d: "distance_f64 (coincident_card_markers LeftPupil) (coincident_card_markers RightPupil)
             = Fin 200"
    by (simp add: coincident_card_markers_def distance_f64_def fl_zero fl_small_ints)
  show ?thesis
    using same d calculatePd_f64_coincident_card [OF same d] by simp
qed

text \<open>
  Claim C1 as stated fails when the pupil distance overflows: with coincident card
  markers and pupils \<open>2 * f64_huge\<close> apart, \<open>pupilPixelDistance\<close> is \<open>Infinity\<close>,
  \<open>pdMm\<close> is \<open>Infinity * 0 = NaN\<close>, so is \<open>pdMmRounded\<close>, and no out-of-range issue is
  raised because \<open>NaN\<close> compares false.
\<close>

theorem calculatePd_f64_overflow_counterexample:
  "far_pupil_markers LeftCard = far_pupil_markers RightCard
   \<and> cardPixelWidth_f64 (calculatePd_f64 far_pupil_markers) = Fin 0
   \<and> mmPerPixel_f64 (calculatePd_f64 far_pupil_markers) = Fin 0
   \<and> pupilPixelDistance_f64 (calculatePd_f64 far_pupil_markers) = PInf
   \<and> pdMm_f64 (calculatePd_f64 far_pupil_markers) = NaN
   \<and> pdMmRounded_f64 (calculatePd_f64 far_pupil_markers) = NaN
   \<and> issues_f64 (calculatePd_f64 far_pupil_markers) = [CardTooClose_f64]"
proof -
  let ?r = "calculatePd_f64 far_pupil_markers"
  have same: "far_pupil_markers LeftCard = far_pupil_markers RightCard"
    by (simp add: far_pupil_markers_def)
  have cw: "distance_f64 (far_pupil_markers LeftCard) (far_pupil_markers RightCard) = Fin 0"
    by (simp add: same distance_f64_self)
  have pts: "x (far_pupil_markers LeftPupil) = - f64_huge"
    "x (far_pupil_markers RightPupil) = f64_huge"
    by (simp_all add: far_pupil_markers_def)
  have pd: "distance_f64 (far_pupil_markers LeftPupil) (far_pupil_markers RightPupil) = PInf"
    unfolding distance_f64_def pts huge_apart by simp
  have f1: "pupilPixelDistance_f64 ?r = PInf"
    by (simp only: calculatePd_f64_fields pd)
  have f2: "cardPixelWidth_f64 ?r = Fin 0"
    by (simp only: calculatePd_f64_fields cw)
  have f3: "mmPerPixel_f64 ?r = Fin 0"
    by (simp add: calculatePd_f64_fields(3) cw num_gt_def)
  have f4: "pdMm_f64 ?r = NaN"
    by (simp add: calculatePd_f64_fields(4) f1 f3)
  have f5: "pdMmRounded_f64 ?r = NaN"
    by (simp add: calculatePd_f64_fields(5) f4)
  have dy: "num_sub (Fin (y (far_pupil_markers LeftCard))) (Fin (y (far_pupil_markers RightCard)))
              = Fin 0"
    by (simp add: same fl_zero)
  have tilt: "\<not> num_gt (num_div (Math_abs_f64 (Fin 0)) (Math_max_f64 (Fin 0) (Fin 1))) (fl 0.2)"
    unfolding fl_02 by (simp add: fl_zero num_gt_def)
  have f8: "issues_f64 ?r = [CardTooClose_f64]"
    unfolding calculatePd_f64_fields(6) cw dy
    using tilt by (simp add: f4 MIN_CARD_PIXEL_WIDTH_f64_def MIN_PD_MM_f64_def
        MAX_PD_MM_f64_def num_gt_def)
  show ?thesis
    using same f1 f2 f3 f4 f5 f8 by blast
qed

end
